theory Spec2Isabelle
  imports Complex_Main "HOL-Library.Sublist"
begin

section \<open>Python values\<close>

text \<open>
  A Python \<open>str\<close> is a sequence of Unicode code points and \<open>len\<close> counts code points,
  so a string is a list of code points (\<open>nat\<close>). \<open>u\<close> embeds a literal whose characters
  are all below 256; literals with Chinese characters are written out as code points.
  Python floats are modelled as exact rationals.
\<close>

type_synonym ustr = "nat list"

definition u :: "string \<Rightarrow> ustr" where
  "u s = map of_char s"

datatype py_error =
    KeyError | TypeError | AttributeError | ZeroDivisionError
  | JSONDecodeError | FileNotFoundError | PermissionError | UnicodeDecodeError

text \<open>The characters for which \<open>str.isspace\<close> holds; \<open>str.strip()\<close> and the regular
  expression class \<open>\s\<close> use the same set.\<close>

definition is_space :: "nat \<Rightarrow> bool" where
  "is_space c = ((9 \<le> c \<and> c \<le> 13) \<or> (28 \<le> c \<and> c \<le> 32) \<or> c = 133 \<or> c = 160
     \<or> c = 5760 \<or> (8192 \<le> c \<and> c \<le> 8202) \<or> c = 8232 \<or> c = 8233 \<or> c = 8239
     \<or> c = 8287 \<or> c = 12288)"

definition py_strip :: "ustr \<Rightarrow> ustr" where
  "py_strip s = rev (dropWhile is_space (rev (dropWhile is_space s)))"

text \<open>\<open>s.split('\n')\<close>: the pieces between line feeds; the empty string gives one empty piece.\<close>

fun split_nl :: "ustr \<Rightarrow> ustr list" where
  "split_nl [] = [[]]"
| "split_nl (c # cs) =
     (if c = 10 then [] # split_nl cs
      else (case split_nl cs of [] \<Rightarrow> [[c]] | x # xs \<Rightarrow> (c # x) # xs))"

text \<open>\<open>s.split('\n\n')\<close>: scanning from the left, each pair of line feeds ends a piece.\<close>

fun split_nlnl :: "ustr \<Rightarrow> ustr list" where
  "split_nlnl (a # b # cs) =
     (if a = 10 \<and> b = 10 then [] # split_nlnl cs
      else (case split_nlnl (b # cs) of [] \<Rightarrow> [[a]] | x # xs \<Rightarrow> (a # x) # xs))"
| "split_nlnl cs = [cs]"

definition startswith :: "ustr \<Rightarrow> ustr \<Rightarrow> bool" where
  "startswith s p = (take (length p) s = p)"

text \<open>\<open>s.replace(old, new)\<close> for a non-empty \<open>old\<close> (every call site passes a literal):
  non-overlapping occurrences, leftmost first.\<close>

fun py_replace :: "ustr \<Rightarrow> ustr \<Rightarrow> ustr \<Rightarrow> ustr" where
  "py_replace old new [] = []"
| "py_replace old new (c # cs) =
     (if old \<noteq> [] \<and> take (length old) (c # cs) = old
      then new @ py_replace old new (drop (length old - 1) cs)
      else c # py_replace old new cs)"

text \<open>\<open>sub in s\<close>.\<close>

fun contains :: "ustr \<Rightarrow> ustr \<Rightarrow> bool" where
  "contains [] sub = (sub = [])"
| "contains (c # cs) sub = (take (length sub) (c # cs) = sub \<or> contains cs sub)"

text \<open>\<open>str.lower\<close> on a string of ASCII characters (the general function depends on
  the Unicode case tables and is a parameter of the classifiers).\<close>

definition ascii_lower :: "ustr \<Rightarrow> ustr" where
  "ascii_lower s = map (\<lambda>c. if 65 \<le> c \<and> c \<le> 90 then c + 32 else c) s"

text \<open>\<open>sep.join(parts)\<close>.\<close>

fun py_join :: "ustr \<Rightarrow> ustr list \<Rightarrow> ustr" where
  "py_join sep [] = []"
| "py_join sep [x] = x"
| "py_join sep (x # y # ys) = x @ sep @ py_join sep (y # ys)"

text \<open>\<open>s[:n]\<close> for an integer \<open>n\<close>: a negative bound counts from the end, and a bound
  before the start gives the empty string.\<close>

definition slice_to :: "int \<Rightarrow> 'a list \<Rightarrow> 'a list" where
  "slice_to n s = (if 0 \<le> n then take (nat n) s else take (length s - nat (- n)) s)"

text \<open>The decimal rendering of a non-negative integer in an f-string.\<close>

fun str_nat :: "nat \<Rightarrow> ustr" where
  "str_nat n = (if n < 10 then [48 + n] else str_nat (n div 10) @ [48 + n mod 10])"

declare str_nat.simps [simp del]

subsection \<open>JSON values and dictionaries\<close>

text \<open>What \<open>json.load\<close> returns. A dictionary is an association list with \<open>map_of\<close> as
  lookup; keys and string values are restricted to characters below 256.\<close>

datatype json =
    JNull | JBool bool | JInt int | JFloat rat | JStr string
  | JList "json list" | JDict "(string \<times> json) list"

type_synonym dict = "(string \<times> json) list"

text \<open>\<open>d[k]\<close>.\<close>

definition item :: "dict \<Rightarrow> string \<Rightarrow> py_error + json" where
  "item d k = (case map_of d k of None \<Rightarrow> Inl KeyError | Some v \<Rightarrow> Inr v)"

text \<open>\<open>v[k]\<close> for a JSON value \<open>v\<close>: a dictionary is looked up, a list or a string
  rejects a string index, the other values are not subscriptable.\<close>

definition subscript :: "json \<Rightarrow> string \<Rightarrow> py_error + json" where
  "subscript v k = (case v of JDict d \<Rightarrow> item d k | _ \<Rightarrow> Inl TypeError)"

text \<open>\<open>v.get(k, dflt)\<close>: only a dictionary has the method.\<close>

definition get_or :: "json \<Rightarrow> string \<Rightarrow> json \<Rightarrow> py_error + json" where
  "get_or v k dflt =
     (case v of JDict d \<Rightarrow> (case map_of d k of None \<Rightarrow> Inr dflt | Some x \<Rightarrow> Inr x)
      | _ \<Rightarrow> Inl AttributeError)"

text \<open>\<open>{**a, **b}\<close>: the keys of \<open>b\<close> override those of \<open>a\<close>.\<close>

definition merge_dict :: "dict \<Rightarrow> dict \<Rightarrow> dict" where
  "merge_dict a b = b @ filter (\<lambda>(k, v). map_of b k = None) a"

text \<open>The truth value of a JSON value in a condition.\<close>

fun truthy :: "json \<Rightarrow> bool" where
  "truthy JNull = False"
| "truthy (JBool b) = b"
| "truthy (JInt n) = (n \<noteq> 0)"
| "truthy (JFloat r) = (r \<noteq> 0)"
| "truthy (JStr s) = (s \<noteq> [])"
| "truthy (JList xs) = (xs \<noteq> [])"
| "truthy (JDict d) = (d \<noteq> [])"

text \<open>A JSON value used as a number in a comparison with a float; booleans count as 0 and 1.\<close>

fun as_number :: "json \<Rightarrow> py_error + rat" where
  "as_number (JInt n) = Inr (of_int n)"
| "as_number (JFloat r) = Inr r"
| "as_number (JBool b) = Inr (if b then 1 else 0)"
| "as_number _ = Inl TypeError"

text \<open>\<open>s[:v]\<close> where the bound \<open>v\<close> comes from a configuration: an integer or a boolean
  slices, \<open>None\<close> keeps the whole string, anything else is a \<open>TypeError\<close>.\<close>

fun slice_to_json :: "json \<Rightarrow> ustr \<Rightarrow> py_error + ustr" where
  "slice_to_json (JInt n) s = Inr (slice_to n s)"
| "slice_to_json (JBool b) s = Inr (slice_to (if b then 1 else 0) s)"
| "slice_to_json JNull s = Inr s"
| "slice_to_json _ s = Inl TypeError"

text \<open>The content of a JSON file as \<open>json.load\<close> sees it: the file is absent, or it
  parses to a value, or parsing raises.\<close>

datatype json_file = Absent | Unparseable | Parsed json

section \<open>The summarizer (\<open>tools/summarizer.py\<close>)\<close>

subsection \<open>Configuration\<close>

definition summarizer_default_config :: json where
  "summarizer_default_config =
     JDict [(''compression_rules'',
             JDict [(''L0_max_chars'', JInt 100), (''L1_max_chars'', JInt 500),
                    (''L2_full_content'', JBool True)])]"

text \<open>\<open>VikingSummarizer.load_config\<close>: the parsed file is taken as it is; the default is
  used only when the file does not exist; a parse error is not caught.\<close>

definition summarizer_load_config :: "json_file \<Rightarrow> py_error + json" where
  "summarizer_load_config f =
     (case f of
        Parsed j \<Rightarrow> Inr j
      | Unparseable \<Rightarrow> Inl JSONDecodeError
      | Absent \<Rightarrow> Inr summarizer_default_config)"

text \<open>\<open>self.config.get("compression_rules", {}).get(key, dflt)\<close>.\<close>

definition max_chars :: "json \<Rightarrow> string \<Rightarrow> int \<Rightarrow> py_error + json" where
  "max_chars config key dflt =
     (case get_or config ''compression_rules'' (JDict []) of
        Inl e \<Rightarrow> Inl e
      | Inr rules \<Rightarrow> get_or rules key (JInt dflt))"

subsection \<open>Tier 0\<close>

text \<open>The loop of \<open>generate_l0_summary\<close> over the lines, with the pair
  \<open>(title, first_content)\<close> as its state; the \<open>break\<close> returns the state.\<close>

fun l0_scan :: "ustr list \<Rightarrow> ustr \<times> ustr \<Rightarrow> ustr \<times> ustr" where
  "l0_scan [] st = st"
| "l0_scan (raw # rest) (title, first_content) =
     (let line = py_strip raw in
      if line = [] then l0_scan rest (title, first_content)
      else
        let title' =
          (if startswith line (u ''# '') then py_strip (py_replace (u ''# '') [] line)
           else if title = [] \<and> length line < 50 then take 50 line
           else title)
        in if first_content = [] \<and> length line > 20 then (title', take 100 line)
           else l0_scan rest (title', first_content))"

definition l0_combine :: "ustr \<Rightarrow> ustr \<Rightarrow> ustr \<Rightarrow> ustr" where
  "l0_combine text title first_content =
     (if title \<noteq> [] \<and> first_content \<noteq> []
        then title @ u '' | '' @ take 50 first_content @ u ''...''
      else if title \<noteq> [] then take 80 title @ u ''...''
      else if first_content \<noteq> [] then take 80 first_content @ u ''...''
      else if length text > 80 then take 80 text @ u ''...'' else text)"

definition generate_l0_summary :: "json \<Rightarrow> ustr \<Rightarrow> py_error + ustr" where
  "generate_l0_summary config text =
     (let lines = split_nl (py_strip text);
          (title, first_content) = l0_scan lines ([], []);
          summary = l0_combine text title first_content
      in case max_chars config ''L0_max_chars'' 100 of
           Inl e \<Rightarrow> Inl e
         | Inr m \<Rightarrow> slice_to_json m summary)"

subsection \<open>Key points\<close>

text \<open>
  \<open>extract_key_points\<close> tests each line with \<open>re.search\<close> against five patterns under
  \<open>re.IGNORECASE\<close>. The three anchored patterns are modelled here. What the regular
  expression engine decides outside ASCII and for the two vocabulary patterns depends
  on Unicode tables (decimal digits, word characters, case folding); these verdicts are
  parameters of the model.
\<close>

record regex_env =
  uni_digit :: "nat \<Rightarrow> bool"   \<comment> \<open>\<open>\d\<close> on a code point above 127\<close>
  marker_word :: "ustr \<Rightarrow> bool"
    \<comment> \<open>\<open>re.search(r'\b(?:TODO|FIXME|IMPORTANT|NOTE|...)\b', line, re.IGNORECASE)\<close>\<close>
  status_word :: "ustr \<Rightarrow> bool"
    \<comment> \<open>\<open>re.search\<close> of the pattern of the three status words\<close>

definition re_digit :: "regex_env \<Rightarrow> nat \<Rightarrow> bool" where
  "re_digit env c = ((48 \<le> c \<and> c \<le> 57) \<or> (127 < c \<and> uni_digit env c))"

text \<open>\<open>^\s*[-*\<bullet>]\s*\<close>: after leading white space, a hyphen, an asterisk or a bullet.\<close>

definition pat_list_item :: "ustr \<Rightarrow> bool" where
  "pat_list_item line =
     (case dropWhile is_space line of [] \<Rightarrow> False | c # _ \<Rightarrow> c = 45 \<or> c = 42 \<or> c = 8226)"

text \<open>\<open>^\s*\d+\.\s*\<close>: after leading white space, one or more digits and a full stop.\<close>

definition pat_numbered :: "regex_env \<Rightarrow> ustr \<Rightarrow> bool" where
  "pat_numbered env line =
     (let rest = dropWhile is_space line in
      rest \<noteq> [] \<and> re_digit env (hd rest) \<and>
      (case dropWhile (re_digit env) rest of [] \<Rightarrow> False | c # _ \<Rightarrow> c = 46))"

text \<open>\<open>^\s*#+\s+\<close>: after leading white space, one or more hashes and a white space.\<close>

definition pat_heading :: "ustr \<Rightarrow> bool" where
  "pat_heading line =
     (let rest = dropWhile is_space line in
      rest \<noteq> [] \<and> hd rest = 35 \<and>
      (case dropWhile (\<lambda>c. c = 35) rest of [] \<Rightarrow> False | c # _ \<Rightarrow> is_space c))"

text \<open>\<open>any(re.search(pattern, line, re.IGNORECASE) for pattern in important_patterns)\<close>,
  in the order of the list.\<close>

definition is_important :: "regex_env \<Rightarrow> ustr \<Rightarrow> bool" where
  "is_important env line =
     (pat_list_item line \<or> pat_numbered env line \<or> marker_word env line
      \<or> status_word env line \<or> pat_heading line)"

text \<open>The loop of \<open>extract_key_points\<close>, with the list \<open>key_points\<close> as its state.\<close>

fun key_points_scan :: "regex_env \<Rightarrow> int \<Rightarrow> ustr list \<Rightarrow> ustr list \<Rightarrow> ustr list" where
  "key_points_scan env max_points [] key_points = key_points"
| "key_points_scan env max_points (raw # rest) key_points =
     (let line = py_strip raw in
      if line = [] \<or> length line < 10 then key_points_scan env max_points rest key_points
      else if is_important env line then
        (let key_points' = key_points @ [line] in
         if int (length key_points') \<ge> max_points then key_points'
         else key_points_scan env max_points rest key_points')
      else key_points_scan env max_points rest key_points)"

definition extract_key_points :: "regex_env \<Rightarrow> ustr \<Rightarrow> int \<Rightarrow> ustr list" where
  "extract_key_points env text max_points =
     key_points_scan env max_points (split_nl (py_strip text)) []"

subsection \<open>Tier 1\<close>

text \<open>The section loop of \<open>generate_l1_overview\<close>, with \<open>(sections, current_section)\<close>
  as its state.\<close>

fun sections_scan :: "ustr list \<Rightarrow> ustr list \<times> ustr \<Rightarrow> ustr list \<times> ustr" where
  "sections_scan [] st = st"
| "sections_scan (raw # rest) (sections, current_section) =
     (let line = py_strip raw in
      if startswith line (u ''## '') then
        sections_scan rest
          (if current_section \<noteq> [] then sections @ [current_section] else sections,
           py_replace (u ''## '') [] line @ u '': '')
      else if startswith line (u ''# '') then
        sections_scan rest
          (if current_section \<noteq> [] then sections @ [current_section] else sections, [])
      else if current_section \<noteq> [] \<and> line \<noteq> [] \<and> length line > 10 then
        sections_scan rest (sections, current_section @ take 100 line @ u ''... '')
      else sections_scan rest (sections, current_section))"

definition extract_sections :: "ustr \<Rightarrow> ustr list" where
  "extract_sections text =
     (let (sections, current_section) = sections_scan (split_nl (py_strip text)) ([], [])
      in if current_section \<noteq> [] then sections @ [current_section] else sections)"

text \<open>The literals \<open>"\<bullet>"\<close> and the three Chinese block labels (key points, sections,
  main content), each label ending in a colon.\<close>

definition bullet :: ustr where "bullet = [8226]"
definition label_key_points :: ustr where "label_key_points = [20851, 38190, 28857, 58]"
definition label_sections :: ustr where "label_sections = [31456, 33410, 58]"
definition label_main_content :: ustr where
  "label_main_content = [20027, 35201, 20869, 23481, 58]"

text \<open>\<open>for i, point in enumerate(points, start)\<close> building the numbered lines.\<close>

fun numbered_lines :: "nat \<Rightarrow> ustr list \<Rightarrow> ustr list" where
  "numbered_lines i [] = []"
| "numbered_lines i (point # points) =
     (u ''  '' @ str_nat i @ u ''. '' @ take 80 point) # numbered_lines (Suc i) points"

definition overview_parts :: "ustr \<Rightarrow> ustr list \<Rightarrow> ustr list \<Rightarrow> ustr list" where
  "overview_parts text key_points sections =
     (let parts1 =
            (if key_points \<noteq> []
             then label_key_points # numbered_lines 1 (take 3 key_points) else []);
          parts2 =
            parts1 @
            (if sections \<noteq> []
             then label_sections #
                  map (\<lambda>section. u ''  '' @ bullet @ u '' '' @ take 100 section)
                      (take 4 sections)
             else [])
      in if parts2 = [] then
           (let paragraphs =
                  map py_strip (filter (\<lambda>p. length (py_strip p) > 20) (split_nlnl text))
            in if paragraphs \<noteq> []
               then label_main_content #
                    map (\<lambda>para. u ''  '' @ bullet @ u '' '' @ take 150 para @ u ''...'')
                        (take 2 paragraphs)
               else [])
         else parts2)"

definition generate_l1_overview :: "regex_env \<Rightarrow> json \<Rightarrow> ustr \<Rightarrow> py_error + ustr" where
  "generate_l1_overview env config text =
     (let key_points = extract_key_points env text 5;
          sections = extract_sections text;
          overview = py_join [10] (overview_parts text key_points sections)
      in case max_chars config ''L1_max_chars'' 500 of
           Inl e \<Rightarrow> Inl e
         | Inr m \<Rightarrow> slice_to_json m overview)"

section \<open>The tier store\<close>

text \<open>
  The bridges read the directories \<open>viking/<context>/<tier>\<close>. A directory is either
  missing or lists its \<open>*.md\<close> files in the order \<open>glob\<close> yields them. For each file the
  store says what \<open>stat()\<close> and what opening and reading it give: a value or an error.
  Errors of \<open>exists()\<close> and \<open>glob\<close> themselves are not modelled.
\<close>

datatype tier = L0 | L1 | L2

fun tier_name :: "tier \<Rightarrow> ustr" where
  "tier_name L0 = u ''L0''"
| "tier_name L1 = u ''L1''"
| "tier_name L2 = u ''L2''"

record file_stat =
  st_mtime :: rat
  st_size :: nat

record md_file =
  stat :: "py_error + file_stat"
  read_text :: "py_error + ustr"

type_synonym store = "string \<Rightarrow> tier \<Rightarrow> md_file list option"

section \<open>The first bridge (\<open>integration/openclaw_bridge.py\<close>)\<close>

subsection \<open>Configuration\<close>

definition default_config :: dict where
  "default_config =
     [(''version'', JStr ''1.0.0''),
      (''integration_mode'', JStr ''hybrid''),
      (''auto_migrate'', JBool True),
      (''cache_enabled'', JBool True),
      (''cache_ttl_seconds'', JInt 3600),
      (''token_optimization'',
         JDict [(''enabled'', JBool True), (''target_saving_rate'', JFloat (7 / 10)),
                (''fallback_to_traditional'', JBool True)]),
      (''query_classification'',
         JDict [(''enabled'', JBool True), (''min_confidence'', JFloat (6 / 10))]),
      (''monitoring'',
         JDict [(''enabled'', JBool True), (''log_interval_queries'', JInt 10)])]"

text \<open>\<open>OpenClawVikingBridge.load_config\<close>: returns the configuration and the state of the
  configuration file afterwards (\<open>save_config\<close> writes the default when the file was
  missing). A parse error and a parsed value that is not a dictionary raise.\<close>

definition load_config :: "json_file \<Rightarrow> py_error + dict \<times> json_file" where
  "load_config f =
     (case f of
        Parsed (JDict user_config) \<Rightarrow> Inr (merge_dict default_config user_config, f)
      | Parsed _ \<Rightarrow> Inl TypeError
      | Unparseable \<Rightarrow> Inl JSONDecodeError
      | Absent \<Rightarrow> Inr (default_config, Parsed (JDict default_config)))"

subsection \<open>Statistics\<close>

record history_entry =
  h_query :: ustr
  h_type :: string
  h_confidence :: rat
  h_viking_tokens :: rat
  h_traditional_tokens :: rat
  h_saving_rate :: rat
  h_timestamp :: ustr

text \<open>The statistics dictionary, with the keys \<open>load_stats\<close> gives it by default. A
  statistics file is taken to hold these keys with values of these types.\<close>

record stats =
  total_queries :: int
  viking_queries :: int
  traditional_queries :: int
  total_tokens_viking :: rat
  total_tokens_traditional :: rat
  total_tokens_saved :: rat
  average_saving_rate :: rat
  query_type_distribution :: "string \<rightharpoonup> int"
  last_reset :: ustr
  query_history :: "history_entry list"

definition default_stats :: "ustr \<Rightarrow> stats" where
  "default_stats now =
     \<lparr>total_queries = 0, viking_queries = 0, traditional_queries = 0,
      total_tokens_viking = 0, total_tokens_traditional = 0, total_tokens_saved = 0,
      average_saving_rate = 0, query_type_distribution = Map.empty,
      last_reset = now, query_history = []\<rparr>"

text \<open>\<open>load_stats\<close>: the file state says whether the file exists and parses; \<open>parsed\<close> is
  the statistics it then holds.\<close>

definition load_stats :: "json_file \<Rightarrow> stats \<Rightarrow> ustr \<Rightarrow> stats" where
  "load_stats f parsed now =
     (case f of Parsed _ \<Rightarrow> parsed | Unparseable \<Rightarrow> default_stats now
      | Absent \<Rightarrow> default_stats now)"

subsection \<open>Classification\<close>

record query_info =
  query :: ustr
  primary_type :: string
  confidence :: rat
  type_scores :: "(string \<times> rat) list"
  timestamp :: ustr

text \<open>The keyword table, in the order of the dictionary literal.\<close>

definition type_patterns :: "(string \<times> ustr list) list" where
  "type_patterns =
     [(''factual'',
         [[20160, 20040, 26102, 20505], [21738, 37324], [35841], [26159, 20160, 20040],
          [22810, 23569], [26085, 26399], [26102, 38388], [21015, 20986],
          [26377, 21738, 20123]]),
      (''creative'',
         [[24819, 27861], [24314, 35758], [21019, 24847], [24590, 20040, 21150],
          [22914, 20309], [35774, 35745], [25913, 36827], [20248, 21270]]),
      (''administrative'',
         [[29366, 24577], [36827, 24230], [26816, 26597], [25253, 21578],
          [24635, 32467], [27010, 35272], [27719, 24635]]),
      (''analytical'',
         [[20026, 20160, 20040], [20998, 26512], [21407, 22240], [23545, 27604],
          [20248, 21155], [20248, 32570, 28857], [35780, 20272]])]"

text \<open>\<open>"?" in query or "\<dots>" in query\<close> for the ASCII and the full-width question mark.\<close>

definition has_question_mark :: "ustr \<Rightarrow> bool" where
  "has_question_mark q = (contains q [63] \<or> contains q [65311])"

definition type_score :: "ustr \<Rightarrow> ustr \<Rightarrow> string \<times> ustr list \<Rightarrow> rat" where
  "type_score q query_lower tp =
     (let score = of_nat (length (filter (\<lambda>pattern. contains query_lower pattern) (snd tp)))
      in if fst tp = ''factual'' \<and> has_question_mark q then score + 1 / 2 else score)"

text \<open>\<open>max(type_scores, key=type_scores.get)\<close>: the first entry with the greatest score.\<close>

fun max_entry :: "string \<times> rat \<Rightarrow> (string \<times> rat) list \<Rightarrow> string \<times> rat" where
  "max_entry best [] = best"
| "max_entry best (x # xs) = max_entry (if snd best < snd x then x else best) xs"

text \<open>\<open>classify_query\<close>. \<open>lower\<close> is \<open>str.lower\<close>, which depends on the Unicode case
  tables and is a parameter; \<open>now\<close> is the time stamp. The confidence is the exact
  quotient, where the code has the quotient rounded to a double.\<close>

definition classify_query :: "(ustr \<Rightarrow> ustr) \<Rightarrow> ustr \<Rightarrow> ustr \<Rightarrow> query_info" where
  "classify_query lower now q =
     (let query_lower = lower q;
          scores = filter (\<lambda>(t, s). s > 0)
                     (map (\<lambda>tp. (fst tp, type_score q query_lower tp)) type_patterns)
      in case scores of
           [] \<Rightarrow> \<lparr>query = q, primary_type = ''factual'', confidence = 1 / 2,
                  type_scores = scores, timestamp = now\<rparr>
         | x # xs \<Rightarrow>
             (let best = max_entry x xs;
                  total = sum_list (map snd scores)
              in \<lparr>query = q, primary_type = fst best,
                  confidence = snd best / (if total = 0 then 1 else total),
                  type_scores = scores, timestamp = now\<rparr>))"

subsection \<open>Retrieval\<close>

text \<open>\<open>load_tier_content\<close> returns \<open>None\<close> for a missing or empty directory, reads the
  first file listed and turns any error of opening or reading it into \<open>None\<close>.\<close>

definition load_tier_content :: "store \<Rightarrow> tier \<Rightarrow> string \<Rightarrow> ustr option" where
  "load_tier_content st tier context_type =
     (case st context_type tier of
        None \<Rightarrow> None
      | Some [] \<Rightarrow> None
      | Some (file_path # _) \<Rightarrow>
          (case read_text file_path of Inl e \<Rightarrow> None | Inr s \<Rightarrow> Some s))"

text \<open>The loop shared by \<open>query_viking_only\<close> and \<open>query_hybrid\<close>: a tier whose content
  is \<open>None\<close> or empty adds nothing.\<close>

fun content_parts :: "store \<Rightarrow> string \<Rightarrow> tier list \<Rightarrow> ustr list" where
  "content_parts st context_type [] = []"
| "content_parts st context_type (tier # tiers) =
     (case load_tier_content st tier context_type of
        None \<Rightarrow> content_parts st context_type tiers
      | Some tier_content \<Rightarrow>
          (if tier_content \<noteq> [] then tier_content # content_parts st context_type tiers
           else content_parts st context_type tiers))"

text \<open>Of the dictionary each query method returns beside the content, the keys
  \<open>strategy\<close> and \<open>tiers\<close> are kept.\<close>

record tier_info =
  strategy :: string
  tiers :: "tier list"

definition query_viking_only :: "store \<Rightarrow> query_info \<Rightarrow> string \<Rightarrow> ustr option \<times> tier_info" where
  "query_viking_only st qi context_type =
     (let tier_map = [(''factual'', [L0, L1]), (''creative'', [L0, L1, L2]),
                      (''administrative'', [L0]), (''analytical'', [L1, L2])];
          ts = (case map_of tier_map (primary_type qi) of None \<Rightarrow> [L0, L1] | Some x \<Rightarrow> x)
      in (Some (py_join [10, 10] (content_parts st context_type ts)),
          \<lparr>strategy = ''viking_only'', tiers = ts\<rparr>))"

text \<open>The tier choice of \<open>query_hybrid\<close>; the threshold is
  \<open>self.config["query_classification"]["min_confidence"]\<close>.\<close>

definition hybrid_tiers :: "dict \<Rightarrow> query_info \<Rightarrow> py_error + tier_info" where
  "hybrid_tiers config qi =
     (case item config ''query_classification'' of
        Inl e \<Rightarrow> Inl e
      | Inr qc \<Rightarrow>
     (case subscript qc ''min_confidence'' of
        Inl e \<Rightarrow> Inl e
      | Inr mc \<Rightarrow>
     (case as_number mc of
        Inl e \<Rightarrow> Inl e
      | Inr min_confidence \<Rightarrow>
          Inr (if confidence qi < min_confidence
               then \<lparr>strategy = ''hybrid_low_confidence'', tiers = [L0, L1, L2]\<rparr>
               else if primary_type qi = ''administrative''
               then \<lparr>strategy = ''hybrid_admin'', tiers = [L0]\<rparr>
               else if primary_type qi \<in> set [''factual'', ''analytical'']
               then \<lparr>strategy = ''hybrid_factual'', tiers = [L0, L1]\<rparr>
               else \<lparr>strategy = ''hybrid_creative'', tiers = [L0, L1, L2]\<rparr>))))"

definition query_hybrid ::
  "dict \<Rightarrow> store \<Rightarrow> query_info \<Rightarrow> string \<Rightarrow> py_error + ustr option \<times> tier_info" where
  "query_hybrid config st qi context_type =
     (case hybrid_tiers config qi of
        Inl e \<Rightarrow> Inl e
      | Inr ti \<Rightarrow> Inr (Some (py_join [10, 10] (content_parts st context_type (tiers ti))), ti))"

definition query_traditional :: "store \<Rightarrow> query_info \<Rightarrow> string \<Rightarrow> ustr option \<times> tier_info" where
  "query_traditional st qi context_type =
     (load_tier_content st L2 context_type, \<lparr>strategy = ''traditional'', tiers = [L2]\<rparr>)"

text \<open>\<open>estimate_traditional_size\<close>: the sizes of the first three files of the full tier;
  a file whose \<open>stat()\<close> fails counts nothing.\<close>

definition estimate_traditional_size :: "store \<Rightarrow> string \<Rightarrow> nat" where
  "estimate_traditional_size st context_type =
     (case st context_type L2 of
        None \<Rightarrow> 0
      | Some files \<Rightarrow>
          sum_list (map (\<lambda>file. case stat file of Inl e \<Rightarrow> 0 | Inr s \<Rightarrow> st_size s)
                        (take 3 files)))"

subsection \<open>Recording a query\<close>

text \<open>\<open>n % v == 0\<close> for an integer \<open>n\<close> and a configured \<open>v\<close>. For a float \<open>v\<close> the
  remainder is taken exactly, where the code takes it on rounded doubles.\<close>

fun mod_is_zero :: "int \<Rightarrow> json \<Rightarrow> py_error + bool" where
  "mod_is_zero n (JInt d) = (if d = 0 then Inl ZeroDivisionError else Inr (n mod d = 0))"
| "mod_is_zero n (JBool b) = (if b then Inr True else Inl ZeroDivisionError)"
| "mod_is_zero n (JFloat r) =
     (if r = 0 then Inl ZeroDivisionError
      else Inr (of_int n / r = of_int \<lfloor>of_int n / r\<rfloor>))"
| "mod_is_zero n _ = Inl TypeError"

text \<open>\<open>history[-k:]\<close> once the history is longer than \<open>k\<close>.\<close>

definition keep_last :: "nat \<Rightarrow> 'a list \<Rightarrow> 'a list" where
  "keep_last k xs = (if length xs > k then drop (length xs - k) xs else xs)"

text \<open>\<open>d[k] = d.get(k, 0) + 1\<close>, as the two statements on the distribution do.\<close>

definition count_type :: "(string \<rightharpoonup> int) \<Rightarrow> string \<Rightarrow> (string \<rightharpoonup> int)" where
  "count_type d k = d(k \<mapsto> (case d k of None \<Rightarrow> 0 | Some c \<Rightarrow> c) + 1)"

text \<open>\<open>update_stats\<close> mutates \<open>self.stats\<close>; the model returns the new statistics. The
  second component is the outcome of the last statement: whether \<open>save_stats\<close> is
  called, or the error of reading the configured interval (the statistics are
  already updated then). Errors of writing the statistics file are not modelled.\<close>

definition update_stats ::
  "dict \<Rightarrow> stats \<Rightarrow> ustr \<Rightarrow> query_info \<Rightarrow> rat \<Rightarrow> rat \<Rightarrow> rat \<Rightarrow> stats \<times> (py_error + bool)" where
  "update_stats config s now qi viking_tokens traditional_tokens saving_rate =
     (let s1 = s\<lparr>total_queries := total_queries s + 1,
                 viking_queries := viking_queries s + 1,
                 total_tokens_viking := total_tokens_viking s + viking_tokens,
                 total_tokens_traditional := total_tokens_traditional s + traditional_tokens,
                 total_tokens_saved :=
                   total_tokens_saved s + (traditional_tokens - viking_tokens)\<rparr>;
          s2 = (if total_queries s1 > 0 then
                  (let total_saving = total_tokens_saved s1;
                       total_traditional = total_tokens_traditional s1
                   in if total_traditional > 0
                      then s1\<lparr>average_saving_rate := total_saving / total_traditional\<rparr>
                      else s1)
                else s1);
          q_type = primary_type qi;
          s3 = s2\<lparr>query_type_distribution := count_type (query_type_distribution s2) q_type\<rparr>;
          history_entry =
            \<lparr>h_query = query qi, h_type = q_type, h_confidence = confidence qi,
             h_viking_tokens = viking_tokens, h_traditional_tokens = traditional_tokens,
             h_saving_rate = saving_rate, h_timestamp = now\<rparr>;
          s4 = s3\<lparr>query_history := keep_last 100 (query_history s3 @ [history_entry])\<rparr>
      in (s4,
          case item config ''monitoring'' of
            Inl e \<Rightarrow> Inl e
          | Inr m \<Rightarrow>
              (case subscript m ''log_interval_queries'' of
                 Inl e \<Rightarrow> Inl e
               | Inr v \<Rightarrow> mod_is_zero (total_queries s4) v)))"

text \<open>A sequence of calls of \<open>update_stats\<close> of the first bridge, each with its query,
  its tokens, its baseline tokens and its saving rate.\<close>

fun update_stats_run ::
  "dict \<Rightarrow> stats \<Rightarrow> ustr \<Rightarrow> (query_info \<times> rat \<times> rat \<times> rat) list \<Rightarrow> stats" where
  "update_stats_run config s now [] = s"
| "update_stats_run config s now ((qi, viking_tokens, traditional_tokens, saving_rate) # calls) =
     update_stats_run config
       (fst (update_stats config s now qi viking_tokens traditional_tokens saving_rate)) now calls"

subsection \<open>The query entry point\<close>

record metadata =
  m_query :: ustr
  m_query_type :: string
  m_query_confidence :: rat
  m_response_size_bytes :: nat
  m_response_tokens_estimated :: rat
  m_traditional_tokens_estimated :: rat
  m_token_saving_rate :: rat
  m_tokens_saved :: rat
  m_loaded_tiers :: "tier list"
  m_response_time_ms :: rat
  m_timestamp :: ustr

record response =
  r_content :: ustr
  r_metadata :: metadata

text \<open>The strategy dispatch of \<open>query_context\<close> on \<open>self.config["integration_mode"]\<close>.\<close>

definition dispatch ::
  "dict \<Rightarrow> store \<Rightarrow> query_info \<Rightarrow> string \<Rightarrow> py_error + ustr option \<times> tier_info" where
  "dispatch config st qi context_type =
     (case item config ''integration_mode'' of
        Inl e \<Rightarrow> Inl e
      | Inr mode \<Rightarrow>
          if mode = JStr ''viking_only'' then Inr (query_viking_only st qi context_type)
          else if mode = JStr ''traditional'' then Inr (query_traditional st qi context_type)
          else query_hybrid config st qi context_type)"

text \<open>\<open>query_context\<close>. \<open>now\<close> is the time stamp and \<open>elapsed_ms\<close> the measured response
  time. The result is the statistics afterwards and either the error raised or the
  response: \<open>len(content)\<close> raises for \<open>None\<close>, and an error of the last statement of
  \<open>update_stats\<close> leaves the statistics updated.\<close>

definition query_context ::
  "(ustr \<Rightarrow> ustr) \<Rightarrow> ustr \<Rightarrow> rat \<Rightarrow> dict \<Rightarrow> store \<Rightarrow> stats \<Rightarrow> ustr \<Rightarrow> string
     \<Rightarrow> stats \<times> (py_error + response)" where
  "query_context lower now elapsed_ms config st s q context_type =
     (let qi = classify_query lower now q in
      case dispatch config st qi context_type of
        Inl e \<Rightarrow> (s, Inl e)
      | Inr (None, ti) \<Rightarrow> (s, Inl TypeError)
      | Inr (Some content, ti) \<Rightarrow>
          (let response_size = length content;
               response_tokens = of_nat response_size * (1 / 4);
               traditional_size = estimate_traditional_size st context_type;
               traditional_tokens = of_nat traditional_size * (1 / 4);
               saving_rate =
                 (if traditional_tokens > 0 then 1 - response_tokens / traditional_tokens
                  else 0);
               tokens_saved =
                 (if traditional_tokens > 0 then traditional_tokens - response_tokens else 0);
               (s', saved) =
                 update_stats config s now qi response_tokens traditional_tokens saving_rate
           in case saved of
                Inl e \<Rightarrow> (s', Inl e)
              | Inr _ \<Rightarrow>
                  (s', Inr \<lparr>r_content = content,
                            r_metadata =
                              \<lparr>m_query = q, m_query_type = primary_type qi,
                               m_query_confidence = confidence qi,
                               m_response_size_bytes = response_size,
                               m_response_tokens_estimated = response_tokens,
                               m_traditional_tokens_estimated = traditional_tokens,
                               m_token_saving_rate = saving_rate,
                               m_tokens_saved = tokens_saved,
                               m_loaded_tiers = tiers ti,
                               m_response_time_ms = elapsed_ms,
                               m_timestamp = now\<rparr>\<rparr>)))"

section \<open>The second bridge (\<open>integration/bridge_v2.py\<close>)\<close>

subsection \<open>Configuration and statistics\<close>

definition v2_default_config :: dict where
  "v2_default_config =
     [(''version'', JStr ''2.0.0''), (''mode'', JStr ''hybrid''),
      (''auto_summarize'', JBool True), (''cache_enabled'', JBool True),
      (''token_optimization'', JBool True), (''monitoring'', JBool True),
      (''query_classifier'', JBool True)]"

text \<open>\<open>OpenClawVikingBridgeV2.load_config\<close>: every error while loading (a parse error, a
  value that is not a dictionary) is caught and the default returned.\<close>

definition v2_load_config :: "json_file \<Rightarrow> dict" where
  "v2_load_config f =
     (case f of
        Parsed (JDict user_config) \<Rightarrow> merge_dict v2_default_config user_config
      | Parsed _ \<Rightarrow> v2_default_config
      | Unparseable \<Rightarrow> v2_default_config
      | Absent \<Rightarrow> v2_default_config)"

record v2_history_entry =
  p_query :: ustr
  p_type :: string
  p_viking_tokens :: rat
  p_saving_rate :: rat
  p_time :: ustr

record v2_stats =
  queries_total :: int
  queries_viking :: int
  tokens_total :: rat
  tokens_saved :: rat
  saving_rate_avg :: rat
  query_types :: "string \<rightharpoonup> int"
  performance_history :: "v2_history_entry list"

definition v2_default_stats :: v2_stats where
  "v2_default_stats =
     \<lparr>queries_total = 0, queries_viking = 0, tokens_total = 0, tokens_saved = 0,
      saving_rate_avg = 0, query_types = Map.empty, performance_history = []\<rparr>"

subsection \<open>Classification and tier strategy\<close>

record v2_query_info =
  q_type :: string
  q_confidence :: rat
  q_original :: ustr

text \<open>The keyword lists of the five rules of \<open>classify_query\<close>, in the order of the
  \<open>if\<close>/\<open>elif\<close> chain.\<close>

definition date_words :: "ustr list" where
  "date_words = [[20160, 20040, 26102, 20505], [26085, 26399], [26102, 38388], [20960, 21495]]"

definition admin_words :: "ustr list" where
  "admin_words = [[26816, 26597], [29366, 24577], [25253, 21578], [24635, 32467]]"

definition analytical_words :: "ustr list" where
  "analytical_words = [[20998, 26512], [20026, 20160, 20040], [21407, 22240], [23545, 27604]]"

definition creative_words :: "ustr list" where
  "creative_words = [[22914, 20309], [25913, 36827], [21019, 24847], [24314, 35758]]"

definition list_words :: "ustr list" where
  "list_words = [[21015, 20986], [26377, 21738, 20123], [20160, 20040, 25216, 33021]]"

text \<open>\<open>any(word in s for word in words)\<close>.\<close>

definition any_in :: "ustr list \<Rightarrow> ustr \<Rightarrow> bool" where
  "any_in words s = list_ex (\<lambda>word. contains s word) words"

definition v2_classify_query :: "(ustr \<Rightarrow> ustr) \<Rightarrow> ustr \<Rightarrow> v2_query_info" where
  "v2_classify_query lower q =
     (let query_lower = lower q in
      if any_in date_words query_lower
        then \<lparr>q_type = ''factual_date'', q_confidence = 9 / 10, q_original = q\<rparr>
      else if any_in admin_words query_lower
        then \<lparr>q_type = ''administrative'', q_confidence = 8 / 10, q_original = q\<rparr>
      else if any_in analytical_words query_lower
        then \<lparr>q_type = ''analytical'', q_confidence = 7 / 10, q_original = q\<rparr>
      else if any_in creative_words query_lower
        then \<lparr>q_type = ''creative'', q_confidence = 7 / 10, q_original = q\<rparr>
      else if any_in list_words query_lower
        then \<lparr>q_type = ''factual_list'', q_confidence = 8 / 10, q_original = q\<rparr>
      else if has_question_mark q
        then \<lparr>q_type = ''factual'', q_confidence = 6 / 10, q_original = q\<rparr>
      else \<lparr>q_type = ''general'', q_confidence = 5 / 10, q_original = q\<rparr>)"

definition get_tier_strategy :: "dict \<Rightarrow> string \<Rightarrow> rat \<Rightarrow> py_error + tier list" where
  "get_tier_strategy config query_type conf =
     (case item config ''query_classifier'' of
        Inl e \<Rightarrow> Inl e
      | Inr enabled \<Rightarrow>
          Inr (if \<not> truthy enabled then [L0, L1]
               else if query_type = ''administrative'' then [L0]
               else if query_type \<in> set [''factual_date'', ''factual_list'', ''factual'']
                 then [L0, L1]
               else if query_type = ''analytical''
                 then (if conf > 7 / 10 then [L1, L2] else [L0, L1, L2])
               else if query_type = ''creative'' then [L0, L1, L2]
               else [L0, L1]))"

text \<open>The mode dispatch of \<open>query_memory\<close>: the tiers and the strategy name.\<close>

definition select_tiers :: "dict \<Rightarrow> v2_query_info \<Rightarrow> py_error + tier list \<times> string" where
  "select_tiers config qi =
     (case item config ''mode'' of
        Inl e \<Rightarrow> Inl e
      | Inr mode \<Rightarrow>
          if mode = JStr ''traditional'' then Inr ([L2], ''traditional'')
          else if mode = JStr ''viking'' then Inr ([L0, L1], ''viking_only'')
          else (case get_tier_strategy config (q_type qi) (q_confidence qi) of
                  Inl e \<Rightarrow> Inl e
                | Inr ts \<Rightarrow> Inr (ts, ''hybrid'')))"

subsection \<open>Retrieval\<close>

text \<open>The sort key of each candidate, computed in list order; the first \<open>stat()\<close>
  that fails raises.\<close>

fun mtime_keys :: "md_file list \<Rightarrow> py_error + (rat \<times> md_file) list" where
  "mtime_keys [] = Inr []"
| "mtime_keys (f # fs) =
     (case stat f of
        Inl e \<Rightarrow> Inl e
      | Inr s \<Rightarrow> (case mtime_keys fs of Inl e \<Rightarrow> Inl e
                  | Inr keyed \<Rightarrow> Inr ((st_mtime s, f) # keyed)))"

text \<open>\<open>sorted(xs, key=k, reverse=True)\<close> is a stable sort of the reversed list, reversed.\<close>

definition sorted_reverse :: "(rat \<times> md_file) list \<Rightarrow> (rat \<times> md_file) list" where
  "sorted_reverse keyed = rev (sort_key fst (rev keyed))"

text \<open>\<open>load_tier_content\<close> of the second bridge returns the empty string for a missing or
  empty directory, picks the first file of the candidates sorted by modification time,
  latest first, and turns any error of opening or reading it into the empty string.\<close>

definition v2_load_tier_content :: "store \<Rightarrow> tier \<Rightarrow> py_error + ustr" where
  "v2_load_tier_content st tier =
     (case st ''memory'' tier of
        None \<Rightarrow> Inr []
      | Some [] \<Rightarrow> Inr []
      | Some md_files \<Rightarrow>
          (case mtime_keys md_files of
             Inl e \<Rightarrow> Inl e
           | Inr keyed \<Rightarrow>
               (case sorted_reverse keyed of
                  [] \<Rightarrow> Inr []
                | (k, latest_file) # _ \<Rightarrow>
                    (case read_text latest_file of Inl e \<Rightarrow> Inr [] | Inr s \<Rightarrow> Inr s))))"

text \<open>The labelled part \<open>f"--- {tier} ---\n{tier_content}"\<close>.\<close>

definition labelled :: "tier \<Rightarrow> ustr \<Rightarrow> ustr" where
  "labelled tier tier_content = u ''--- '' @ tier_name tier @ u '' ---'' @ [10] @ tier_content"

text \<open>The loading loop of \<open>query_memory\<close>.\<close>

fun v2_content_parts :: "store \<Rightarrow> tier list \<Rightarrow> py_error + ustr list" where
  "v2_content_parts st [] = Inr []"
| "v2_content_parts st (tier # ts) =
     (case v2_load_tier_content st tier of
        Inl e \<Rightarrow> Inl e
      | Inr tier_content \<Rightarrow>
          (case v2_content_parts st ts of
             Inl e \<Rightarrow> Inl e
           | Inr parts \<Rightarrow>
               Inr (if tier_content \<noteq> [] then labelled tier tier_content # parts
                    else parts)))"

text \<open>The content for a tier list and its estimated tokens, as \<open>query_memory\<close> computes
  them.\<close>

definition retrieve :: "store \<Rightarrow> tier list \<Rightarrow> py_error + ustr" where
  "retrieve st ts =
     (case v2_content_parts st ts of
        Inl e \<Rightarrow> Inl e
      | Inr parts \<Rightarrow> Inr (py_join [10, 10] parts))"

definition estimated_tokens :: "ustr \<Rightarrow> rat" where
  "estimated_tokens content = of_nat (length content) * (25 / 100)"

subsection \<open>Recording a query\<close>

text \<open>\<open>update_stats\<close> of the second bridge; the flag says whether \<open>save_stats\<close> is called.\<close>

definition v2_update_stats ::
  "v2_stats \<Rightarrow> ustr \<Rightarrow> v2_query_info \<Rightarrow> rat \<Rightarrow> rat \<Rightarrow> rat \<Rightarrow> v2_stats \<times> bool" where
  "v2_update_stats s now qi viking_tokens traditional_tokens saving_rate =
     (let s1 = s\<lparr>queries_total := queries_total s + 1,
                 queries_viking := queries_viking s + 1,
                 tokens_total := tokens_total s + viking_tokens,
                 tokens_saved := tokens_saved s + (traditional_tokens - viking_tokens)\<rparr>;
          s2 = (if queries_total s1 > 0 then
                  (let total_saved = tokens_saved s1;
                       total_traditional = of_int (queries_total s1) * traditional_tokens
                   in if total_traditional > 0
                      then s1\<lparr>saving_rate_avg := total_saved / total_traditional\<rparr>
                      else s1)
                else s1);
          qt = q_type qi;
          s3 = s2\<lparr>query_types := count_type (query_types s2) qt\<rparr>;
          history_entry =
            \<lparr>p_query = take 50 (q_original qi), p_type = qt,
             p_viking_tokens = viking_tokens, p_saving_rate = saving_rate, p_time = now\<rparr>;
          s4 = s3\<lparr>performance_history :=
                    keep_last 50 (performance_history s3 @ [history_entry])\<rparr>
      in (s4, queries_total s4 mod 10 = 0))"

subsection \<open>The query entry point\<close>

record v2_metadata =
  v_query :: ustr
  v_query_type :: string
  v_confidence :: rat
  v_strategy :: string
  v_tiers_loaded :: "tier list"
  v_response_chars :: nat
  v_response_tokens :: rat
  v_traditional_tokens :: rat
  v_token_saving_rate :: rat
  v_tokens_saved :: rat
  v_response_time_ms :: rat
  v_timestamp :: ustr

record v2_response =
  v_content :: ustr
  v_metadata :: v2_metadata

text \<open>\<open>query_memory\<close>. An error raised before \<open>update_stats\<close> leaves the statistics as
  they were.\<close>

definition query_memory ::
  "(ustr \<Rightarrow> ustr) \<Rightarrow> ustr \<Rightarrow> rat \<Rightarrow> dict \<Rightarrow> store \<Rightarrow> v2_stats \<Rightarrow> ustr
     \<Rightarrow> v2_stats \<times> (py_error + v2_response)" where
  "query_memory lower now elapsed_ms config st s user_query =
     (let qi = v2_classify_query lower user_query in
      case select_tiers config qi of
        Inl e \<Rightarrow> (s, Inl e)
      | Inr (ts, strat) \<Rightarrow>
     (case retrieve st ts of
        Inl e \<Rightarrow> (s, Inl e)
      | Inr content \<Rightarrow>
     (case v2_load_tier_content st L2 of
        Inl e \<Rightarrow> (s, Inl e)
      | Inr l2_content \<Rightarrow>
          (let response_chars = length content;
               response_tokens = estimated_tokens content;
               traditional_chars = length l2_content;
               traditional_tokens =
                 (if traditional_chars > 0 then of_nat traditional_chars * (25 / 100)
                  else response_tokens * 3);
               saving_rate =
                 (if traditional_tokens > 0 then 1 - response_tokens / traditional_tokens
                  else 0);
               saved =
                 (if traditional_tokens > 0 then traditional_tokens - response_tokens else 0);
               (s', flag) =
                 v2_update_stats s now qi response_tokens traditional_tokens saving_rate
           in (s', Inr \<lparr>v_content = content,
                        v_metadata =
                          \<lparr>v_query = user_query, v_query_type = q_type qi,
                           v_confidence = q_confidence qi, v_strategy = strat,
                           v_tiers_loaded = ts, v_response_chars = response_chars,
                           v_response_tokens = response_tokens,
                           v_traditional_tokens = traditional_tokens,
                           v_token_saving_rate = saving_rate, v_tokens_saved = saved,
                           v_response_time_ms = elapsed_ms, v_timestamp = now\<rparr>\<rparr>)))))"

section \<open>Example inputs\<close>

text \<open>A store whose only file is the full tier of the memory context.\<close>

definition l2_store :: store where
  "l2_store ctx t =
     (if ctx = ''memory'' \<and> t = L2
      then Some [\<lparr>stat = Inr \<lparr>st_mtime = 1, st_size = 8\<rparr>, read_text = Inr (u ''all text'')\<rparr>]
      else None)"

text \<open>The default configurations with the mode set to traditional by the user.\<close>

definition traditional_config :: dict where
  "traditional_config = merge_dict default_config [(''integration_mode'', JStr ''traditional'')]"

definition v2_traditional_config :: dict where
  "v2_traditional_config = merge_dict v2_default_config [(''mode'', JStr ''traditional'')]"

text \<open>A store with a summary and an overview for the memory context and no full tier.\<close>

definition small_store :: store where
  "small_store ctx t =
     (if ctx = ''memory'' \<and> t = L0
      then Some [\<lparr>stat = Inr \<lparr>st_mtime = 1, st_size = 4\<rparr>, read_text = Inr (u ''abcd'')\<rparr>]
      else if ctx = ''memory'' \<and> t = L1
      then Some [\<lparr>stat = Inr \<lparr>st_mtime = 1, st_size = 8\<rparr>, read_text = Inr (u ''efghijkl'')\<rparr>]
      else None)"

text \<open>A query with one administrative and one analytical keyword, and no other.\<close>

definition mixed_query :: ustr where
  "mixed_query = [26816, 26597, 20026, 20160, 20040]"

text \<open>A summarizer configuration with a negative maximum for the summary.\<close>

definition negative_config :: json where
  "negative_config = JDict [(''compression_rules'', JDict [(''L0_max_chars'', JInt (- 5))])]"

text \<open>A store whose summary directory lists an older file before a newer one.\<close>

definition two_files_store :: store where
  "two_files_store ctx t =
     (if ctx = ''memory'' \<and> t = L0
      then Some [\<lparr>stat = Inr \<lparr>st_mtime = 1, st_size = 11\<rparr>, read_text = Inr (u ''old summary'')\<rparr>,
                 \<lparr>stat = Inr \<lparr>st_mtime = 2, st_size = 11\<rparr>, read_text = Inr (u ''new summary'')\<rparr>]
      else None)"

text \<open>A store whose summary file cannot be read.\<close>

definition unreadable_store :: store where
  "unreadable_store ctx t =
     (if ctx = ''memory'' \<and> t = L0
      then Some [\<lparr>stat = Inr \<lparr>st_mtime = 1, st_size = 4\<rparr>, read_text = Inl PermissionError\<rparr>]
      else if ctx = ''memory'' \<and> t = L1
      then Some [\<lparr>stat = Inr \<lparr>st_mtime = 1, st_size = 8\<rparr>, read_text = Inr (u ''efghijkl'')\<rparr>]
      else None)"

text \<open>The input of the report scenario.\<close>

definition report_text :: ustr where
  "report_text = u ''# Report'' @ [10] @ u ''## Progress'' @ [10] @ u ''- done task A'' @ [10]
     @ u ''- done task B'' @ [10]"

section \<open>Absent tiers\<close>

text \<open>A tier has nothing to give when its directory is missing or lists no file, or
  when opening or reading the chosen file fails.\<close>

definition v2_absent :: "store \<Rightarrow> tier \<Rightarrow> bool" where
  "v2_absent st t =
     (case st ''memory'' t of
        None \<Rightarrow> True
      | Some [] \<Rightarrow> True
      | Some files \<Rightarrow>
          (case mtime_keys files of
             Inl e \<Rightarrow> False
           | Inr keyed \<Rightarrow>
               (case sorted_reverse keyed of
                  [] \<Rightarrow> False
                | (k, f) # rest \<Rightarrow> isl (read_text f))))"

definition absent :: "store \<Rightarrow> string \<Rightarrow> tier \<Rightarrow> bool" where
  "absent st ctx t =
     (case st ctx t of None \<Rightarrow> True | Some [] \<Rightarrow> True | Some (f # fs) \<Rightarrow> isl (read_text f))"

section \<open>Properties of the query counters\<close>

lemma update_stats_counters:
  "update_stats config s now qi vt tt sr = (s', out) \<Longrightarrow>
     total_queries s' = total_queries s + 1 \<and> viking_queries s' = viking_queries s + 1
     \<and> traditional_queries s' = traditional_queries s"
  by (auto simp: update_stats_def Let_def)

lemma v2_update_stats_counters:
  "v2_update_stats s now qi vt tt sr = (s', flag) \<Longrightarrow>
     queries_total s' = queries_total s + 1 \<and> queries_viking s' = queries_viking s + 1"
  by (auto simp: v2_update_stats_def Let_def)

lemma query_context_counters:
  assumes "query_context lower now el config st s q ctx = (s', out)"
  shows "total_queries s' - viking_queries s' = total_queries s - viking_queries s
         \<and> traditional_queries s' = traditional_queries s
         \<and> (\<not> isl out \<longrightarrow> total_queries s' = total_queries s + 1
                \<and> viking_queries s' = viking_queries s + 1)"
  using assms
  by (auto simp: query_context_def Let_def split: sum.splits prod.splits option.splits
      dest!: update_stats_counters)

lemma query_memory_counters:
  assumes "query_memory lower now el config st s q = (s', out)"
  shows "queries_total s' - queries_viking s' = queries_total s - queries_viking s
         \<and> (\<not> isl out \<longrightarrow> queries_total s' = queries_total s + 1
                \<and> queries_viking s' = queries_viking s + 1)"
  using assms
  by (auto simp: query_memory_def Let_def split: sum.splits prod.splits option.splits
      dest!: v2_update_stats_counters)

text \<open>
  C10. On every query the statistics updater adds exactly one to the total-query counter
  and one to the viking-query counter, whatever the configured mode, so the difference
  of the two counters never changes; no operation changes the traditional-queries
  counter. The first two parts are \<open>update_stats\<close> of either bridge; the last two are the
  entry points \<open>query_context\<close> and \<open>query_memory\<close> in any configuration: the difference is
  kept whatever the outcome, and a query that returns a response has counted once on
  both counters.
\<close>

theorem C10_query_counters:
  "(let r = update_stats config s now qi vt tt sr in
      total_queries (fst r) = total_queries s + 1
      \<and> viking_queries (fst r) = viking_queries s + 1
      \<and> traditional_queries (fst r) = traditional_queries s)
   \<and> (let r = v2_update_stats t now qi2 vt tt sr in
      queries_total (fst r) = queries_total t + 1
      \<and> queries_viking (fst r) = queries_viking t + 1)
   \<and> (let r = query_context lower now el config st s q ctx in
      total_queries (fst r) - viking_queries (fst r) = total_queries s - viking_queries s
      \<and> traditional_queries (fst r) = traditional_queries s
      \<and> (\<not> isl (snd r) \<longrightarrow> total_queries (fst r) = total_queries s + 1
             \<and> viking_queries (fst r) = viking_queries s + 1))
   \<and> (let r = query_memory lower now el config2 st t q in
      queries_total (fst r) - queries_viking (fst r) = queries_total t - queries_viking t
      \<and> (\<not> isl (snd r) \<longrightarrow> queries_total (fst r) = queries_total t + 1
             \<and> queries_viking (fst r) = queries_viking t + 1))"
proof -
  obtain a b where 1: "update_stats config s now qi vt tt sr = (a, b)"
    by (cases "update_stats config s now qi vt tt sr")
  obtain c d where 2: "v2_update_stats t now qi2 vt tt sr = (c, d)"
    by (cases "v2_update_stats t now qi2 vt tt sr")
  obtain e f where 3: "query_context lower now el config st s q ctx = (e, f)"
    by (cases "query_context lower now el config st s q ctx")
  obtain g h where 4: "query_memory lower now el config2 st t q = (g, h)"
    by (cases "query_memory lower now el config2 st t q")
  show ?thesis
    using update_stats_counters [OF 1] v2_update_stats_counters [OF 2]
      query_context_counters [OF 3] query_memory_counters [OF 4]
    by (simp add: 1 2 3 4 Let_def)
qed

lemma traditional_query_context_ok:
  "\<not> isl (snd (query_context ascii_lower [] 0 traditional_config l2_store (default_stats [])
                 (u ''hello'') ''memory''))"
  by (simp add: query_context_def traditional_config_def merge_dict_def default_config_def
      dispatch_def item_def query_traditional_def load_tier_content_def l2_store_def Let_def
      estimate_traditional_size_def update_stats_def default_stats_def subscript_def
      keep_last_def)

lemma traditional_query_memory_ok:
  "\<not> isl (snd (query_memory ascii_lower [] 0 v2_traditional_config l2_store v2_default_stats
                 (u ''hello'')))"
  by (simp add: query_memory_def v2_traditional_config_def merge_dict_def v2_default_config_def
      select_tiers_def item_def retrieve_def v2_load_tier_content_def l2_store_def Let_def
      sorted_reverse_def v2_update_stats_def split: prod.splits)

theorem C10_query_counters_witness:
  "\<not> isl (snd (query_context ascii_lower [] 0 traditional_config l2_store (default_stats [])
                 (u ''hello'') ''memory''))
   \<and> total_queries (fst (query_context ascii_lower [] 0 traditional_config l2_store
                           (default_stats []) (u ''hello'') ''memory'')) = 1
   \<and> viking_queries (fst (query_context ascii_lower [] 0 traditional_config l2_store
                           (default_stats []) (u ''hello'') ''memory'')) = 1
   \<and> traditional_queries (fst (query_context ascii_lower [] 0 traditional_config l2_store
                           (default_stats []) (u ''hello'') ''memory'')) = 0
   \<and> \<not> isl (snd (query_memory ascii_lower [] 0 v2_traditional_config l2_store
                     v2_default_stats (u ''hello'')))
   \<and> queries_total (fst (query_memory ascii_lower [] 0 v2_traditional_config l2_store
                           v2_default_stats (u ''hello''))) = 1
   \<and> queries_viking (fst (query_memory ascii_lower [] 0 v2_traditional_config l2_store
                           v2_default_stats (u ''hello''))) = 1"
  using C10_query_counters [where lower = ascii_lower and now = "[]" and el = 0
      and config = traditional_config and st = l2_store and s = "default_stats []"
      and q = "u ''hello''" and ctx = "''memory''" and ?config2.0 = v2_traditional_config
      and t = v2_default_stats]
    traditional_query_context_ok traditional_query_memory_ok
  by (simp add: Let_def default_stats_def v2_default_stats_def)

section \<open>Properties of the running average\<close>

lemma hello_general:
  "v2_classify_query ascii_lower (u ''hello'') =
     \<lparr>q_type = ''general'', q_confidence = 5 / 10, q_original = u ''hello''\<rparr>"
  by (simp add: v2_classify_query_def ascii_lower_def u_def any_in_def date_words_def
      admin_words_def analytical_words_def creative_words_def list_words_def
      has_question_mark_def)

lemma check_admin:
  "v2_classify_query ascii_lower [26816, 26597] =
     \<lparr>q_type = ''administrative'', q_confidence = 8 / 10, q_original = [26816, 26597]\<rparr>"
  by (simp add: v2_classify_query_def ascii_lower_def u_def any_in_def date_words_def
      admin_words_def analytical_words_def creative_words_def list_words_def
      has_question_mark_def)

lemma small_L0: "v2_load_tier_content small_store L0 = Inr (u ''abcd'')"
  by (simp add: v2_load_tier_content_def small_store_def sorted_reverse_def)

lemma small_L1: "v2_load_tier_content small_store L1 = Inr (u ''efghijkl'')"
  by (simp add: v2_load_tier_content_def small_store_def sorted_reverse_def)

lemma small_L2: "v2_load_tier_content small_store L2 = Inr []"
  by (simp add: v2_load_tier_content_def small_store_def sorted_reverse_def)

text \<open>
  C3. After every call of the statistics update the stored average saving rate is the
  cumulative total of tokens saved divided by the cumulative total of baseline tokens.
  The second bridge does not do this: it divides by the number of queries times the
  baseline of the latest query. With a summary of 4 and an overview of 8 characters
  stored and no full tier, the query "hello" (baseline 27 tokens) followed by an
  administrative query (baseline 45/4 tokens) saves 51/2 tokens of 153/4: the
  cumulative rate is 2/3, and the stored average is 17/15.
\<close>

theorem C3_v2_average_not_cumulative:
  "(case query_memory ascii_lower [] 0 v2_default_config small_store v2_default_stats
           (u ''hello'') of
      (s1, r1) \<Rightarrow>
    (case query_memory ascii_lower [] 0 v2_default_config small_store s1 [26816, 26597] of
      (s2, r2) \<Rightarrow>
        map_sum id (v_traditional_tokens \<circ> v_metadata) r1 = Inr 27
        \<and> map_sum id (v_traditional_tokens \<circ> v_metadata) r2 = Inr (45 / 4)
        \<and> tokens_saved s2 = 51 / 2
        \<and> tokens_saved s2 / (27 + 45 / 4) = 2 / 3
        \<and> saving_rate_avg s2 = 17 / 15))"
  unfolding query_memory_def hello_general check_admin
  by (simp add: select_tiers_def get_tier_strategy_def v2_default_config_def item_def
      retrieve_def small_L0 small_L1 small_L2 labelled_def u_def estimated_tokens_def
      v2_update_stats_def v2_default_stats_def Let_def)

text \<open>The first bridge keeps the cumulative baseline and divides by it.\<close>

lemma update_stats_totals:
  "update_stats config s now qi vt tt sr = (s', out) \<Longrightarrow>
     total_tokens_traditional s' = total_tokens_traditional s + tt
     \<and> total_tokens_saved s' = total_tokens_saved s + (tt - vt)
     \<and> total_tokens_viking s' = total_tokens_viking s + vt"
  by (auto simp: update_stats_def Let_def)

lemma update_stats_average:
  "update_stats config s now qi vt tt sr = (s', out) \<Longrightarrow> 0 \<le> total_queries s \<Longrightarrow>
     0 < total_tokens_traditional s' \<Longrightarrow>
     average_saving_rate s' = total_tokens_saved s' / total_tokens_traditional s'"
  by (auto simp: update_stats_def Let_def)

lemma update_stats_run_snoc:
  "update_stats_run config s now (calls @ [(qi, vt, tt, sr)]) =
     fst (update_stats config (update_stats_run config s now calls) now qi vt tt sr)"
  by (induction calls arbitrary: s) auto

lemma update_stats_run_totals:
  "total_tokens_traditional (update_stats_run config s now calls) =
     total_tokens_traditional s + (\<Sum>(qi, vt, tt, sr)\<leftarrow>calls. tt)
   \<and> total_tokens_saved (update_stats_run config s now calls) =
     total_tokens_saved s + (\<Sum>(qi, vt, tt, sr)\<leftarrow>calls. tt - vt)
   \<and> total_queries (update_stats_run config s now calls) = total_queries s + int (length calls)"
proof (induction calls arbitrary: s)
  case Nil
  then show ?case by simp
next
  case (Cons c calls)
  obtain qi vt tt sr where c: "c = (qi, vt, tt, sr)" by (cases c)
  obtain s' out where u: "update_stats config s now qi vt tt sr = (s', out)"
    by (cases "update_stats config s now qi vt tt sr")
  show ?case
    using Cons.IH [of s'] update_stats_totals [OF u] update_stats_counters [OF u]
    by (simp add: c u)
qed

lemma update_stats_run_average:
  assumes "0 < (\<Sum>(qi, vt, tt, sr)\<leftarrow>calls. tt)"
  shows "average_saving_rate (update_stats_run config (default_stats t0) now calls) =
           (\<Sum>(qi, vt, tt, sr)\<leftarrow>calls. tt - vt) / (\<Sum>(qi, vt, tt, sr)\<leftarrow>calls. tt)"
proof (cases calls rule: rev_cases)
  case Nil
  with assms show ?thesis by simp
next
  case (snoc calls' c)
  obtain qi vt tt sr where c: "c = (qi, vt, tt, sr)" by (cases c)
  let ?s = "update_stats_run config (default_stats t0) now calls'"
  obtain s' out where u: "update_stats config ?s now qi vt tt sr = (s', out)"
    by (cases "update_stats config ?s now qi vt tt sr")
  have run: "update_stats_run config (default_stats t0) now calls = s'"
    by (simp add: snoc c update_stats_run_snoc u)
  have tot: "total_tokens_traditional s' = (\<Sum>(qi, vt, tt, sr)\<leftarrow>calls. tt)"
    and sav: "total_tokens_saved s' = (\<Sum>(qi, vt, tt, sr)\<leftarrow>calls. tt - vt)"
    using update_stats_run_totals [of config "default_stats t0" now calls, unfolded run]
    by (simp_all add: default_stats_def)
  have "0 \<le> total_queries ?s"
    using update_stats_run_totals [of config "default_stats t0" now calls']
    by (simp add: default_stats_def)
  then have "average_saving_rate s' = total_tokens_saved s' / total_tokens_traditional s'"
    using update_stats_average [OF u] assms tot by simp
  then show ?thesis by (simp add: run tot sav)
qed

section \<open>Properties of classification and tier selection\<close>

lemma hello_factual:
  "classify_query ascii_lower [] (u ''hello'') =
     \<lparr>query = u ''hello'', primary_type = ''factual'', confidence = 1 / 2, type_scores = [],
      timestamp = []\<rparr>"
  by (simp add: classify_query_def ascii_lower_def u_def type_patterns_def type_score_def
      has_question_mark_def)

lemma mixed_administrative:
  "classify_query ascii_lower [] mixed_query =
     \<lparr>query = mixed_query, primary_type = ''administrative'', confidence = 1 / 2,
      type_scores = [(''administrative'', 1), (''analytical'', 1)], timestamp = []\<rparr>"
  by (simp add: classify_query_def ascii_lower_def mixed_query_def type_patterns_def
      type_score_def has_question_mark_def)

text \<open>
  The second bridge has no confidence threshold: the query "hello" has confidence 0.5,
  below 0.6, and hybrid mode selects the summary and the overview only.
\<close>

theorem C1_v2_counterexample:
  "q_confidence (v2_classify_query ascii_lower (u ''hello'')) < 6 / 10
   \<and> select_tiers v2_default_config (v2_classify_query ascii_lower (u ''hello''))
       = Inr ([L0, L1], ''hybrid'')"
  unfolding hello_general
  by (simp add: select_tiers_def get_tier_strategy_def v2_default_config_def item_def)

text \<open>
  C1 (as amended). In hybrid mode of the first bridge (the mode is neither
  \<open>viking_only\<close> nor \<open>traditional\<close>), every query whose confidence is below the
  configured \<open>min_confidence\<close> gets all three tiers, whatever its primary type.
\<close>

theorem C1_low_confidence_loads_all_tiers:
  assumes "item config ''integration_mode'' = Inr mode"
    and "mode \<noteq> JStr ''viking_only''" and "mode \<noteq> JStr ''traditional''"
    and "item config ''query_classification'' = Inr qc"
    and "subscript qc ''min_confidence'' = Inr mc"
    and "as_number mc = Inr min_confidence"
    and "confidence qi < min_confidence"
  shows "dispatch config st qi ctx =
           Inr (Some (py_join [10, 10] (content_parts st ctx [L0, L1, L2])),
                \<lparr>strategy = ''hybrid_low_confidence'', tiers = [L0, L1, L2]\<rparr>)"
  using assms by (simp add: dispatch_def query_hybrid_def hybrid_tiers_def)

theorem C1_low_confidence_loads_all_tiers_witness:
  "primary_type (classify_query ascii_lower [] mixed_query) = ''administrative''
   \<and> confidence (classify_query ascii_lower [] mixed_query) < 6 / 10
   \<and> map_sum id (tiers \<circ> snd)
        (dispatch default_config small_store (classify_query ascii_lower [] mixed_query)
           ''memory'') = Inr [L0, L1, L2]"
proof -
  have 1: "item default_config ''integration_mode'' = Inr (JStr ''hybrid'')"
    by (simp add: item_def default_config_def)
  have 2: "item default_config ''query_classification''
             = Inr (JDict [(''enabled'', JBool True), (''min_confidence'', JFloat (6 / 10))])"
    by (simp add: item_def default_config_def)
  have 3: "subscript (JDict [(''enabled'', JBool True), (''min_confidence'', JFloat (6 / 10))])
             ''min_confidence'' = Inr (JFloat (6 / 10))"
    by (simp add: subscript_def item_def)
  have 4: "as_number (JFloat (6 / 10)) = Inr (6 / 10)" by simp
  have 5: "confidence (classify_query ascii_lower [] mixed_query) < 6 / 10"
    by (simp add: mixed_administrative)
  show ?thesis
    using C1_low_confidence_loads_all_tiers [OF 1 _ _ 2 3 4 5, of small_store "''memory''"] 5
    by (simp add: mixed_administrative)
qed

text \<open>
  In the first bridge the query "hello" matches no keyword and has no question mark; it
  is classified as factual with confidence 0.5, and under the default threshold 0.6
  hybrid mode selects all three tiers.
\<close>

theorem C2_first_bridge_counterexample:
  "primary_type (classify_query ascii_lower [] (u ''hello'')) = ''factual''
   \<and> confidence (classify_query ascii_lower [] (u ''hello'')) = 1 / 2
   \<and> hybrid_tiers default_config (classify_query ascii_lower [] (u ''hello''))
       = Inr \<lparr>strategy = ''hybrid_low_confidence'', tiers = [L0, L1, L2]\<rparr>"
  unfolding hello_factual
  by (simp add: hybrid_tiers_def default_config_def item_def subscript_def)

lemma type_score_zero:
  "\<not> any_in (snd tp) ql \<Longrightarrow> \<not> has_question_mark q \<Longrightarrow> type_score q ql tp = 0"
  by (simp add: type_score_def any_in_def list_ex_iff filter_empty_conv)

lemma any_in_append: "any_in (xs @ ys) s = (any_in xs s \<or> any_in ys s)"
  by (auto simp: any_in_def list_ex_iff)

lemma classify_query_default:
  assumes "\<not> any_in (concat (map snd type_patterns)) (lower q)" and "\<not> has_question_mark q"
  shows "classify_query lower now q =
     \<lparr>query = q, primary_type = ''factual'', confidence = 1 / 2, type_scores = [],
      timestamp = now\<rparr>"
proof -
  have "\<forall>tp \<in> set type_patterns. type_score q (lower q) tp = 0"
    using assms by (auto intro!: type_score_zero simp: any_in_def list_ex_iff)
  then have "filter (\<lambda>(t, s). s > 0)
               (map (\<lambda>tp. (fst tp, type_score q (lower q) tp)) type_patterns) = []"
    by (auto simp: filter_empty_conv)
  then show ?thesis by (simp add: classify_query_def Let_def)
qed

lemma v2_classify_query_default:
  assumes "\<not> any_in (date_words @ admin_words @ analytical_words @ creative_words @ list_words)
               (lower q)"
    and "\<not> has_question_mark q"
  shows "v2_classify_query lower q =
           \<lparr>q_type = ''general'', q_confidence = 1 / 2, q_original = q\<rparr>"
  using assms by (simp add: v2_classify_query_def any_in_append Let_def)

text \<open>
  C2 (as amended). A query in which no classifier keyword matches and which has no
  question mark is classified, by the second bridge, as \<open>general\<close> with confidence
  exactly 0.5, and its hybrid mode selects exactly the summary and the overview. The
  first bridge classifies it as \<open>factual\<close> with confidence exactly 0.5, and its hybrid
  mode selects the summary and the overview only when the configured \<open>min_confidence\<close>
  is at most 0.5, and all three tiers otherwise.
\<close>

theorem C2_unmatched_query:
  "(\<not> any_in (date_words @ admin_words @ analytical_words @ creative_words @ list_words)
        (lower q)
    \<and> \<not> has_question_mark q
    \<and> item config2 ''mode'' = Inr mode \<and> mode \<noteq> JStr ''traditional'' \<and> mode \<noteq> JStr ''viking''
    \<and> item config2 ''query_classifier'' = Inr flag
    \<longrightarrow> v2_classify_query lower q = \<lparr>q_type = ''general'', q_confidence = 1 / 2, q_original = q\<rparr>
        \<and> select_tiers config2 (v2_classify_query lower q) = Inr ([L0, L1], ''hybrid''))
   \<and> (\<not> any_in (concat (map snd type_patterns)) (lower q)
    \<and> \<not> has_question_mark q
    \<and> item config ''query_classification'' = Inr qc
    \<and> subscript qc ''min_confidence'' = Inr mc \<and> as_number mc = Inr min_confidence
    \<longrightarrow> classify_query lower now q =
          \<lparr>query = q, primary_type = ''factual'', confidence = 1 / 2, type_scores = [],
           timestamp = now\<rparr>
        \<and> hybrid_tiers config (classify_query lower now q) =
          Inr (if 1 / 2 < min_confidence
               then \<lparr>strategy = ''hybrid_low_confidence'', tiers = [L0, L1, L2]\<rparr>
               else \<lparr>strategy = ''hybrid_factual'', tiers = [L0, L1]\<rparr>))"
  by (auto simp: v2_classify_query_default classify_query_default select_tiers_def
      get_tier_strategy_def hybrid_tiers_def)


lemma hello_unmatched:
  "\<not> any_in (date_words @ admin_words @ analytical_words @ creative_words @ list_words)
        (ascii_lower (u ''hello''))
   \<and> \<not> any_in (concat (map snd type_patterns)) (ascii_lower (u ''hello''))
   \<and> \<not> has_question_mark (u ''hello'')"
  by (simp add: any_in_def date_words_def admin_words_def analytical_words_def
      creative_words_def list_words_def type_patterns_def ascii_lower_def u_def
      has_question_mark_def)

theorem C2_unmatched_query_witness:
  "\<not> any_in (date_words @ admin_words @ analytical_words @ creative_words @ list_words)
        (ascii_lower (u ''hello''))
   \<and> \<not> any_in (concat (map snd type_patterns)) (ascii_lower (u ''hello''))
   \<and> \<not> has_question_mark (u ''hello'')
   \<and> v2_classify_query ascii_lower (u ''hello'') =
       \<lparr>q_type = ''general'', q_confidence = 1 / 2, q_original = u ''hello''\<rparr>
   \<and> select_tiers v2_default_config (v2_classify_query ascii_lower (u ''hello''))
       = Inr ([L0, L1], ''hybrid'')
   \<and> hybrid_tiers default_config (classify_query ascii_lower [] (u ''hello''))
       = Inr \<lparr>strategy = ''hybrid_low_confidence'', tiers = [L0, L1, L2]\<rparr>"
proof -
  have 1: "item v2_default_config ''mode'' = Inr (JStr ''hybrid'')"
    and 2: "item v2_default_config ''query_classifier'' = Inr (JBool True)"
    by (simp_all add: item_def v2_default_config_def)
  have 3: "item default_config ''query_classification''
             = Inr (JDict [(''enabled'', JBool True), (''min_confidence'', JFloat (6 / 10))])"
    by (simp add: item_def default_config_def)
  have 4: "subscript (JDict [(''enabled'', JBool True), (''min_confidence'', JFloat (6 / 10))])
             ''min_confidence'' = Inr (JFloat (6 / 10))"
    by (simp add: subscript_def item_def)
  have 5: "as_number (JFloat (6 / 10)) = Inr (6 / 10)" by simp
  note inst = C2_unmatched_query [where lower = ascii_lower and q = "u ''hello''"
        and ?config2.0 = v2_default_config and mode = "JStr ''hybrid''"
        and flag = "JBool True" and config = default_config
        and qc = "JDict [(''enabled'', JBool True), (''min_confidence'', JFloat (6 / 10))]"
        and mc = "JFloat (6 / 10)" and min_confidence = "6 / 10" and now = "[]"]
  have a: "v2_classify_query ascii_lower (u ''hello'') =
             \<lparr>q_type = ''general'', q_confidence = 1 / 2, q_original = u ''hello''\<rparr>
           \<and> select_tiers v2_default_config (v2_classify_query ascii_lower (u ''hello''))
               = Inr ([L0, L1], ''hybrid'')"
    using inst hello_unmatched 1 2 by blast
  have "hybrid_tiers default_config (classify_query ascii_lower [] (u ''hello'')) =
          Inr (if (1 / 2 :: rat) < 6 / 10
               then \<lparr>strategy = ''hybrid_low_confidence'', tiers = [L0, L1, L2]\<rparr>
               else \<lparr>strategy = ''hybrid_factual'', tiers = [L0, L1]\<rparr>)"
    using inst hello_unmatched 3 4 5 by blast
  then have b: "hybrid_tiers default_config (classify_query ascii_lower [] (u ''hello''))
                  = Inr \<lparr>strategy = ''hybrid_low_confidence'', tiers = [L0, L1, L2]\<rparr>"
    by simp
  show ?thesis using a b hello_unmatched by blast
qed

section \<open>Properties of configuration loading\<close>

text \<open>
  A configuration file with a negative maximum for the summary loads without error,
  the negative value is what the summarizer then reads, and the summary is cut from
  the end; and the second bridge replaces a file that does not parse by the defaults.
\<close>

theorem C4_negative_max_chars_counterexample:
  "summarizer_load_config (Parsed negative_config) = Inr negative_config
   \<and> max_chars negative_config ''L0_max_chars'' 100 = Inr (JInt (- 5))
   \<and> generate_l0_summary negative_config (u ''# Weekly report'') = Inr (u ''Weekly repo'')
   \<and> v2_load_config Unparseable = v2_default_config"
  by (simp add: summarizer_load_config_def negative_config_def max_chars_def get_or_def
      generate_l0_summary_def u_def py_strip_def is_space_def startswith_def l0_combine_def
      slice_to_def v2_load_config_def)

lemma item_merge_dict: "map_of d k = Some v \<Longrightarrow> item (merge_dict a d) k = Inr v"
  by (simp add: item_def merge_dict_def)

text \<open>
  C4 (as amended). No loader validates option values. A configuration file that parses
  is loaded without error whatever its values: the summarizer takes the parsed value as
  it is, and both bridges keep every value the user gives, merged over their defaults.
  A file that does not parse raises in the summarizer and in the first bridge, and is
  replaced by the defaults in the second bridge.
\<close>

theorem C4_loaders_accept_any_value:
  "summarizer_load_config (Parsed j) = Inr j
   \<and> load_config (Parsed (JDict d)) = Inr (merge_dict default_config d, Parsed (JDict d))
   \<and> v2_load_config (Parsed (JDict d)) = merge_dict v2_default_config d
   \<and> (map_of d k = Some v \<longrightarrow>
        item (merge_dict default_config d) k = Inr v
        \<and> item (merge_dict v2_default_config d) k = Inr v)
   \<and> summarizer_load_config Unparseable = Inl JSONDecodeError
   \<and> load_config Unparseable = Inl JSONDecodeError
   \<and> v2_load_config Unparseable = v2_default_config"
  by (simp add: summarizer_load_config_def load_config_def v2_load_config_def item_merge_dict)

theorem C4_loaders_accept_any_value_witness:
  "map_of [(''mode'', JInt (- 1))] ''mode'' = Some (JInt (- 1))
   \<and> item (v2_load_config (Parsed (JDict [(''mode'', JInt (- 1))]))) ''mode'' = Inr (JInt (- 1))
   \<and> map_sum id (\<lambda>r. item (fst r) ''mode'') (load_config (Parsed (JDict [(''mode'', JInt (- 1))])))
       = Inr (Inr (JInt (- 1)))"
  using C4_loaders_accept_any_value [where d = "[(''mode'', JInt (- 1))]" and k = "''mode''"
      and v = "JInt (- 1)"]
  by simp

section \<open>Properties of retrieval\<close>

text \<open>
  C9. When more than one stored file is a candidate for a tier, retrieval returns the
  content of the most recently modified one. The first bridge reads the first file
  listed instead: with an older file listed before a newer one it returns the older
  content, where the second bridge returns the newer.
\<close>

theorem C9_first_bridge_reads_first_listed:
  "load_tier_content two_files_store L0 ''memory'' = Some (u ''old summary'')
   \<and> v2_load_tier_content two_files_store L0 = Inr (u ''new summary'')"
  by (simp add: load_tier_content_def v2_load_tier_content_def two_files_store_def
      sorted_reverse_def)

text \<open>The second bridge reads a candidate whose modification time is greatest.\<close>

lemma mtime_keys_files:
  "mtime_keys files = Inr keyed \<Longrightarrow>
     map snd keyed = files \<and> (\<forall>(k, f) \<in> set keyed. \<exists>s. stat f = Inr s \<and> st_mtime s = k)"
  by (induction files arbitrary: keyed) (auto split: sum.splits)

lemma sorted_reverse_head:
  assumes "sorted_reverse keyed = (k, f) # rest"
  shows "(k, f) \<in> set keyed \<and> (\<forall>(k', f') \<in> set keyed. k' \<le> k)"
proof -
  have eq: "sort_key fst (rev keyed) = rev rest @ [(k, f)]"
    using assms by (simp add: sorted_reverse_def rev_swap)
  have "sorted (map fst (sort_key fst (rev keyed)))" by simp
  then have le: "\<forall>x \<in> set (rev rest). fst x \<le> k"
    unfolding eq by (auto simp: sorted_append)
  have "set (sort_key fst (rev keyed)) = set keyed" by simp
  then have s: "set keyed = set rest \<union> {(k, f)}" unfolding eq by auto
  show ?thesis using le s by auto
qed

lemma v2_load_picks_latest:
  assumes "st ''memory'' t = Some files" and "files \<noteq> []" and "mtime_keys files = Inr keyed"
  shows "\<exists>f s. f \<in> set files \<and> stat f = Inr s
           \<and> (\<forall>g \<in> set files. \<forall>sg. stat g = Inr sg \<longrightarrow> st_mtime sg \<le> st_mtime s)
           \<and> v2_load_tier_content st t = Inr (case read_text f of Inl e \<Rightarrow> [] | Inr c \<Rightarrow> c)"
proof -
  have mk: "map snd keyed = files"
    and st: "\<forall>(k, f) \<in> set keyed. \<exists>s. stat f = Inr s \<and> st_mtime s = k"
    using mtime_keys_files [OF assms(3)] by auto
  have "keyed \<noteq> []" using mk assms(2) by auto
  moreover have "length (sorted_reverse keyed) = length keyed"
    by (simp add: sorted_reverse_def)
  ultimately have "sorted_reverse keyed \<noteq> []" by auto
  then obtain k f rest where sr: "sorted_reverse keyed = (k, f) # rest"
    by (cases "sorted_reverse keyed") auto
  have mem: "(k, f) \<in> set keyed" and mx: "\<forall>(k', f') \<in> set keyed. k' \<le> k"
    using sorted_reverse_head [OF sr] by auto
  obtain s where s: "stat f = Inr s" "st_mtime s = k" using st mem by auto
  have fin: "f \<in> set files" using mem mk by force
  have latest: "\<forall>g \<in> set files. \<forall>sg. stat g = Inr sg \<longrightarrow> st_mtime sg \<le> st_mtime s"
  proof (intro ballI allI impI)
    fix g sg assume "g \<in> set files" and sg: "stat g = Inr sg"
    then obtain k' where "(k', g) \<in> set keyed" using mk by force
    then show "st_mtime sg \<le> st_mtime s" using st mx sg s by fastforce
  qed
  have "v2_load_tier_content st t = Inr (case read_text f of Inl e \<Rightarrow> [] | Inr c \<Rightarrow> c)"
    using assms sr by (cases files) (auto simp: v2_load_tier_content_def split: sum.splits)
  then show ?thesis using fin s latest by blast
qed

text \<open>
  An error of reading a tier's file does not reach the caller: with a summary file
  whose reading raises \<open>PermissionError\<close>, both bridges treat the summary as absent and
  return the overview alone.
\<close>

theorem C5_read_error_counterexample:
  "v2_load_tier_content unreadable_store L0 = Inr []
   \<and> load_tier_content unreadable_store L0 ''memory'' = None
   \<and> retrieve unreadable_store [L0, L1] = Inr (labelled L1 (u ''efghijkl''))
   \<and> content_parts unreadable_store ''memory'' [L0, L1] = [u ''efghijkl'']"
  by (simp add: v2_load_tier_content_def load_tier_content_def unreadable_store_def
      sorted_reverse_def retrieve_def u_def)

lemma v2_absent_load: "v2_absent st t \<Longrightarrow> v2_load_tier_content st t = Inr []"
  by (auto simp: v2_absent_def v2_load_tier_content_def
      split: option.splits list.splits sum.splits)

lemma absent_load: "absent st ctx t \<Longrightarrow> load_tier_content st t ctx = None"
  by (auto simp: absent_def load_tier_content_def split: option.splits list.splits sum.splits)

lemma v2_content_parts_skip:
  "v2_content_parts st (filter (\<lambda>t. \<not> v2_absent st t) ts) = v2_content_parts st ts"
  by (induction ts) (auto simp: v2_absent_load split: sum.splits)

lemma content_parts_skip:
  "content_parts st ctx (filter (\<lambda>t. \<not> absent st ctx t) ts) = content_parts st ctx ts"
  by (induction ts) (auto simp: absent_load split: option.splits)

lemma dispatch_skips_absent:
  assumes "item config ''integration_mode'' = Inr mode" and "mode \<noteq> JStr ''traditional''"
    and "mode = JStr ''viking_only'' \<or> \<not> isl (hybrid_tiers config qi)"
  shows "\<exists>ti. dispatch config st qi ctx =
           Inr (Some (py_join [10, 10]
                  (content_parts st ctx (filter (\<lambda>t. \<not> absent st ctx t) (tiers ti)))), ti)"
  using assms
  by (auto simp: dispatch_def query_viking_only_def query_hybrid_def content_parts_skip Let_def
      split: sum.splits)

lemma query_context_skips_absent:
  assumes "item config ''integration_mode'' = Inr mode" and "mode \<noteq> JStr ''traditional''"
    and "mode = JStr ''viking_only'' \<or> \<not> isl (hybrid_tiers config (classify_query lower now q))"
    and "\<forall>vt tt sr. \<not> isl (snd (update_stats config s now (classify_query lower now q) vt tt sr))"
  shows "\<exists>r. snd (query_context lower now el config st s q ctx) = Inr r
           \<and> r_content r = py_join [10, 10]
                (content_parts st ctx
                   (filter (\<lambda>t. \<not> absent st ctx t) (m_loaded_tiers (r_metadata r))))"
proof -
  let ?qi = "classify_query lower now q"
  obtain ti where d: "dispatch config st ?qi ctx =
      Inr (Some (py_join [10, 10]
             (content_parts st ctx (filter (\<lambda>t. \<not> absent st ctx t) (tiers ti)))), ti)"
    using dispatch_skips_absent [OF assms(1,2,3)] by blast
  have no: "update_stats config s now ?qi vt tt sr \<noteq> (s', Inl e)" for vt tt sr s' e
  proof
    assume "update_stats config s now ?qi vt tt sr = (s', Inl e)"
    then have "isl (snd (update_stats config s now ?qi vt tt sr))" by simp
    then show False using assms(4) by blast
  qed
  show ?thesis
    using no
    by (auto simp: query_context_def d Let_def split: prod.splits sum.splits)
qed

lemma query_memory_skips_absent:
  assumes "select_tiers config (v2_classify_query lower q) = Inr (ts, strat)"
    and "\<forall>t. \<not> isl (v2_load_tier_content st t)"
  shows "\<exists>r. snd (query_memory lower now el config st s q) = Inr r
           \<and> v_tiers_loaded (v_metadata r) = ts
           \<and> retrieve st (filter (\<lambda>t. \<not> v2_absent st t) ts) = Inr (v_content r)"
proof -
  have parts: "\<exists>ps. v2_content_parts st xs = Inr ps" for xs
  proof (induction xs)
    case Nil
    then show ?case by simp
  next
    case (Cons x xs)
    obtain c where "v2_load_tier_content st x = Inr c"
      using assms(2) [rule_format, of x] by (cases "v2_load_tier_content st x") auto
    with Cons show ?case by auto
  qed
  obtain ps where ps: "v2_content_parts st ts = Inr ps" using parts by blast
  obtain l2 where l2: "v2_load_tier_content st L2 = Inr l2"
    using assms(2) [rule_format, of L2] by (cases "v2_load_tier_content st L2") auto
  show ?thesis
    by (simp add: query_memory_def assms(1) retrieve_def v2_content_parts_skip ps l2 Let_def
        split: prod.splits)
qed

text \<open>
  C5 (as amended). In the second bridge (\<open>query_memory\<close>, in every mode) and in the
  \<open>viking_only\<close> and hybrid modes of the first bridge (\<open>query_context\<close>), retrieval does
  not raise an error because a tier's stored content is absent: the tier is skipped and
  the contents of the remaining tiers are returned. An error raised while opening or
  reading a tier's file is caught inside \<open>load_tier_content\<close>, and the tier is treated
  as absent. For the entry points this reads: once the configuration yields the tiers
  (and, in the first bridge, the save interval) and no \<open>stat()\<close> fails, the query
  returns a response whose content is that of the tiers that are not absent.
\<close>

theorem C5_absent_or_unreadable_tier_is_skipped:
  "(v2_absent st t \<longrightarrow> v2_load_tier_content st t = Inr [])
   \<and> retrieve st ts = retrieve st (filter (\<lambda>t. \<not> v2_absent st t) ts)
   \<and> (select_tiers config2 (v2_classify_query lower q) = Inr (ts2, strat)
        \<and> (\<forall>t. \<not> isl (v2_load_tier_content st t))
      \<longrightarrow> (\<exists>r. snd (query_memory lower now el config2 st s2 q) = Inr r
             \<and> v_tiers_loaded (v_metadata r) = ts2
             \<and> retrieve st (filter (\<lambda>t. \<not> v2_absent st t) ts2) = Inr (v_content r)))
   \<and> (absent st ctx t \<longrightarrow> load_tier_content st t ctx = None)
   \<and> content_parts st ctx ts = content_parts st ctx (filter (\<lambda>t. \<not> absent st ctx t) ts)
   \<and> (item config ''integration_mode'' = Inr mode \<and> mode \<noteq> JStr ''traditional''
        \<and> (mode = JStr ''viking_only''
             \<or> \<not> isl (hybrid_tiers config (classify_query lower now q)))
        \<and> (\<forall>vt tt sr.
              \<not> isl (snd (update_stats config s now (classify_query lower now q) vt tt sr)))
      \<longrightarrow> (\<exists>r. snd (query_context lower now el config st s q ctx) = Inr r
             \<and> r_content r = py_join [10, 10]
                  (content_parts st ctx
                     (filter (\<lambda>t. \<not> absent st ctx t) (m_loaded_tiers (r_metadata r))))))"
proof -
  have a: "v2_absent st t \<longrightarrow> v2_load_tier_content st t = Inr []"
    by (simp add: v2_absent_load)
  have b: "retrieve st ts = retrieve st (filter (\<lambda>t. \<not> v2_absent st t) ts)"
    by (simp add: retrieve_def v2_content_parts_skip)
  have c: "absent st ctx t \<longrightarrow> load_tier_content st t ctx = None"
    by (simp add: absent_load)
  have d: "content_parts st ctx ts = content_parts st ctx (filter (\<lambda>t. \<not> absent st ctx t) ts)"
    by (simp add: content_parts_skip)
  show ?thesis
    using a b c d query_memory_skips_absent [of config2 lower q ts2 strat st now el s2]
      query_context_skips_absent [of config mode lower now q s el st ctx]
    by blast
qed

lemma unreadable_store_loads: "\<not> isl (v2_load_tier_content unreadable_store t)"
  by (cases t) (simp_all add: v2_load_tier_content_def unreadable_store_def sorted_reverse_def)

lemma default_save_interval:
  "\<not> isl (snd (update_stats default_config (default_stats []) [] qi vt tt sr))"
  by (simp add: update_stats_def default_config_def default_stats_def item_def subscript_def
      Let_def)

theorem C5_absent_or_unreadable_tier_is_skipped_witness:
  "v2_absent unreadable_store L0 \<and> v2_absent unreadable_store L2
   \<and> absent unreadable_store ''memory'' L0 \<and> absent unreadable_store ''memory'' L2
   \<and> v2_load_tier_content unreadable_store L0 = Inr []
   \<and> load_tier_content unreadable_store L0 ''memory'' = None
   \<and> retrieve unreadable_store [L0, L1, L2] = retrieve unreadable_store [L1]
   \<and> retrieve unreadable_store [L1] = Inr (labelled L1 (u ''efghijkl''))
   \<and> (\<exists>r. snd (query_memory ascii_lower [] 0 v2_default_config unreadable_store
                  v2_default_stats (u ''hello'')) = Inr r
          \<and> v_tiers_loaded (v_metadata r) = [L0, L1]
          \<and> v_content r = labelled L1 (u ''efghijkl''))
   \<and> (\<exists>r. snd (query_context ascii_lower [] 0 default_config unreadable_store
                  (default_stats []) (u ''hello'') ''memory'') = Inr r
          \<and> m_loaded_tiers (r_metadata r) = [L0, L1, L2]
          \<and> r_content r = u ''efghijkl'')"
proof -
  have a: "v2_absent unreadable_store L0" "v2_absent unreadable_store L2"
    "\<not> v2_absent unreadable_store L1" "absent unreadable_store ''memory'' L0"
    "absent unreadable_store ''memory'' L2" "\<not> absent unreadable_store ''memory'' L1"
    by (simp_all add: v2_absent_def absent_def unreadable_store_def sorted_reverse_def)
  have r: "retrieve unreadable_store [L1] = Inr (labelled L1 (u ''efghijkl''))"
    by (simp add: v2_load_tier_content_def unreadable_store_def sorted_reverse_def
        retrieve_def u_def)
  have c: "content_parts unreadable_store ''memory'' [L1] = [u ''efghijkl'']"
    by (simp add: load_tier_content_def unreadable_store_def u_def)
  have sel: "select_tiers v2_default_config (v2_classify_query ascii_lower (u ''hello''))
               = Inr ([L0, L1], ''hybrid'')"
    unfolding hello_general
    by (simp add: select_tiers_def get_tier_strategy_def v2_default_config_def item_def)
  have mode: "item default_config ''integration_mode'' = Inr (JStr ''hybrid'')"
    by (simp add: item_def default_config_def)
  have hy: "hybrid_tiers default_config (classify_query ascii_lower [] (u ''hello''))
              = Inr \<lparr>strategy = ''hybrid_low_confidence'', tiers = [L0, L1, L2]\<rparr>"
    unfolding hello_factual
    by (simp add: hybrid_tiers_def default_config_def item_def subscript_def)
  note inst = C5_absent_or_unreadable_tier_is_skipped [where st = unreadable_store and t = L0
        and ts = "[L0, L1, L2]" and ctx = "''memory''" and ?config2.0 = v2_default_config
        and lower = ascii_lower and q = "u ''hello''" and ?ts2.0 = "[L0, L1]"
        and strat = "''hybrid''" and now = "[]" and el = 0 and ?s2.0 = v2_default_stats
        and config = default_config and mode = "JStr ''hybrid''" and s = "default_stats []"]
  have v2: "\<exists>r. snd (query_memory ascii_lower [] 0 v2_default_config unreadable_store
                  v2_default_stats (u ''hello'')) = Inr r
          \<and> v_tiers_loaded (v_metadata r) = [L0, L1]
          \<and> v_content r = labelled L1 (u ''efghijkl'')"
    using inst sel unreadable_store_loads a r by auto
  obtain r1 where q1: "snd (query_context ascii_lower [] 0 default_config unreadable_store
                  (default_stats []) (u ''hello'') ''memory'') = Inr r1"
      "r_content r1 = py_join [10, 10] (content_parts unreadable_store ''memory''
          (filter (\<lambda>t. \<not> absent unreadable_store ''memory'' t)
             (m_loaded_tiers (r_metadata r1))))"
    using inst mode hy default_save_interval by auto
  have ti: "m_loaded_tiers (r_metadata r1) = [L0, L1, L2]"
    using q1(1) by (auto simp: query_context_def dispatch_def mode query_hybrid_def hy Let_def
        split: sum.splits prod.splits option.splits)
  then have "r_content r1 = u ''efghijkl''" using q1(2) a c by simp
  then have v1: "\<exists>r. snd (query_context ascii_lower [] 0 default_config unreadable_store
                  (default_stats []) (u ''hello'') ''memory'') = Inr r
          \<and> m_loaded_tiers (r_metadata r) = [L0, L1, L2]
          \<and> r_content r = u ''efghijkl''"
    using q1(1) ti by blast
  have p1: "v2_load_tier_content unreadable_store L0 = Inr []"
    and p2: "load_tier_content unreadable_store L0 ''memory'' = None"
    using inst a by blast+
  have f: "filter (\<lambda>t. \<not> v2_absent unreadable_store t) [L0, L1, L2] = [L1]"
    using a by simp
  have "retrieve unreadable_store [L0, L1, L2]
          = retrieve unreadable_store (filter (\<lambda>t. \<not> v2_absent unreadable_store t) [L0, L1, L2])"
    using inst by blast
  then have p3: "retrieve unreadable_store [L0, L1, L2] = retrieve unreadable_store [L1]"
    by (simp only: f)
  show ?thesis
    using a(1,2,4,5) p1 p2 p3 r v2 v1 by blast
qed

text \<open>In traditional mode the first bridge hands the result of \<open>load_tier_content\<close> to
  \<open>len\<close> as it is, so a full tier that is absent ends the query with a \<open>TypeError\<close>.\<close>

lemma query_traditional_missing_full_tier:
  assumes "item config ''integration_mode'' = Inr (JStr ''traditional'')"
    and "absent st ctx L2"
  shows "query_context lower now el config st s q ctx = (s, Inl TypeError)"
  using assms by (simp add: query_context_def dispatch_def query_traditional_def absent_load)

lemma select_tiers_cases:
  "select_tiers config qi = Inr (ts, strat) \<Longrightarrow>
     ts = [L2] \<or> ts = [L0, L1] \<or> ts = [L0] \<or> ts = [L1, L2] \<or> ts = [L0, L1, L2]"
  by (auto simp: select_tiers_def get_tier_strategy_def split: sum.splits if_splits)

lemma retrieve_all_tiers:
  "retrieve st [L0, L1, L2] = Inr c3 \<Longrightarrow>
     \<exists>a0 a1 a2. v2_load_tier_content st L0 = Inr a0 \<and> v2_load_tier_content st L1 = Inr a1
        \<and> v2_load_tier_content st L2 = Inr a2"
  by (auto simp: retrieve_def split: sum.splits)

lemma retrieve_selection_le:
  assumes "ts = [L2] \<or> ts = [L0, L1] \<or> ts = [L0] \<or> ts = [L1, L2] \<or> ts = [L0, L1, L2]"
    and "retrieve st [L0, L1, L2] = Inr c3"
  shows "\<exists>c. retrieve st ts = Inr c \<and> length c \<le> length c3"
proof -
  obtain a0 a1 a2 where l: "v2_load_tier_content st L0 = Inr a0"
    "v2_load_tier_content st L1 = Inr a1" "v2_load_tier_content st L2 = Inr a2"
    using retrieve_all_tiers [OF assms(2)] by blast
  show ?thesis
    using assms by (auto simp: retrieve_def l)
qed

text \<open>
  C8. For every query and every store state, the estimated tokens of the content
  retrieved for the selected tiers are at most the estimated tokens of retrieving all
  three tiers from the same store. Whenever the configuration yields a selection and
  all three tiers can be retrieved, \<open>query_memory\<close> returns a response for the selected
  tiers within that bound.
\<close>

theorem C8_selected_tiers_cost_at_most_all_tiers:
  assumes "select_tiers config (v2_classify_query lower q) = Inr (ts, strat)"
    and "retrieve st [L0, L1, L2] = Inr c3"
  shows "\<exists>s' r. query_memory lower now el config st s q = (s', Inr r)
           \<and> v_tiers_loaded (v_metadata r) = ts
           \<and> retrieve st ts = Inr (v_content r)
           \<and> v_response_tokens (v_metadata r) = estimated_tokens (v_content r)
           \<and> v_response_tokens (v_metadata r) \<le> estimated_tokens c3"
proof -
  obtain c where c: "retrieve st ts = Inr c" "length c \<le> length c3"
    using retrieve_selection_le [OF select_tiers_cases [OF assms(1)] assms(2)] by blast
  obtain a2 where a2: "v2_load_tier_content st L2 = Inr a2"
    using retrieve_all_tiers [OF assms(2)] by blast
  show ?thesis
    using c by (simp add: query_memory_def assms(1) a2 Let_def estimated_tokens_def
        split: prod.splits)
qed

theorem C8_selected_tiers_cost_at_most_all_tiers_witness:
  "select_tiers v2_default_config (v2_classify_query ascii_lower [26816, 26597])
     = Inr ([L0], ''hybrid'')
   \<and> retrieve small_store [L0, L1, L2]
       = Inr (py_join [10, 10] [labelled L0 (u ''abcd''), labelled L1 (u ''efghijkl'')])
   \<and> (\<exists>s' r. query_memory ascii_lower [] 0 v2_default_config small_store v2_default_stats
                 [26816, 26597] = (s', Inr r)
          \<and> v_tiers_loaded (v_metadata r) = [L0]
          \<and> v_response_tokens (v_metadata r)
              \<le> estimated_tokens
                   (py_join [10, 10] [labelled L0 (u ''abcd''), labelled L1 (u ''efghijkl'')]))"
proof -
  have 1: "select_tiers v2_default_config (v2_classify_query ascii_lower [26816, 26597])
             = Inr ([L0], ''hybrid'')"
    unfolding check_admin
    by (simp add: select_tiers_def get_tier_strategy_def v2_default_config_def item_def)
  have 2: "retrieve small_store [L0, L1, L2]
             = Inr (py_join [10, 10] [labelled L0 (u ''abcd''), labelled L1 (u ''efghijkl'')])"
    by (simp add: retrieve_def small_L0 small_L1 small_L2 u_def)
  show ?thesis
    using C8_selected_tiers_cost_at_most_all_tiers [OF 1 2, of "[]" 0 v2_default_stats] 1 2
    by auto
qed

section \<open>Properties of the summarizer\<close>

lemma report_lines:
  "split_nl (py_strip report_text) =
     [u ''# Report'', u ''## Progress'', u ''- done task A'', u ''- done task B'']"
  by (simp add: report_text_def u_def py_strip_def is_space_def)

lemma default_max_chars:
  "max_chars summarizer_default_config ''L0_max_chars'' 100 = Inr (JInt 100)"
  "max_chars summarizer_default_config ''L1_max_chars'' 500 = Inr (JInt 500)"
  by (simp_all add: max_chars_def summarizer_default_config_def get_or_def)

lemma report_l0:
  "generate_l0_summary summarizer_default_config report_text = Inr (u ''Report...'')"
  unfolding generate_l0_summary_def report_lines default_max_chars
  by (simp add: u_def startswith_def py_strip_def is_space_def l0_combine_def slice_to_def)

lemma report_key_points:
  "extract_key_points env report_text 5 =
     [u ''## Progress'', u ''- done task A'', u ''- done task B'']"
  unfolding extract_key_points_def report_lines
  by (simp add: u_def py_strip_def is_important_def pat_list_item_def pat_numbered_def
      pat_heading_def re_digit_def is_space_def)

lemma report_sections:
  "extract_sections report_text = [u ''Progress: - done task A... - done task B... '']"
  unfolding extract_sections_def report_lines
  by (simp add: u_def py_strip_def is_space_def startswith_def)

lemma report_l1:
  "generate_l1_overview env summarizer_default_config report_text =
     Inr (py_join [10]
            [label_key_points, u ''  1. ## Progress'', u ''  2. - done task A'',
             u ''  3. - done task B'', label_sections,
             u ''  '' @ bullet @ u '' Progress: - done task A... - done task B... ''])"
  unfolding generate_l1_overview_def report_key_points report_sections default_max_chars
  by (simp add: overview_parts_def str_nat.simps u_def slice_to_def label_key_points_def
      label_sections_def bullet_def)

lemma l0_combine_nonempty: "text \<noteq> [] \<Longrightarrow> l0_combine text t f \<noteq> []"
  by (auto simp: l0_combine_def u_def)

text \<open>
  C6. For every non-empty input text, the summary \<open>generate_l0_summary\<close> produces is not
  empty and is at most as long as the configured maximum (100 by default). The
  maximum is the positive integer the configuration gives for \<open>L0_max_chars\<close>, or the
  default when the key is missing; with a maximum of zero or less no summary can be
  both non-empty and within the maximum.
\<close>

theorem C6_tier0_bounded_and_nonempty:
  assumes "text \<noteq> []"
    and "max_chars config ''L0_max_chars'' 100 = Inr (JInt n)"
    and "0 < n"
  shows "\<exists>s. generate_l0_summary config text = Inr s \<and> s \<noteq> [] \<and> int (length s) \<le> n"
proof -
  obtain title first_content where sc:
    "l0_scan (split_nl (py_strip text)) ([], []) = (title, first_content)"
    by (cases "l0_scan (split_nl (py_strip text)) ([], [])")
  let ?summary = "l0_combine text title first_content"
  have ne: "?summary \<noteq> []" using assms(1) by (rule l0_combine_nonempty)
  have g: "generate_l0_summary config text = Inr (take (nat n) ?summary)"
    using assms(2,3) by (simp add: generate_l0_summary_def sc slice_to_def)
  have "take (nat n) ?summary \<noteq> []" using ne assms(3) by (cases ?summary) auto
  moreover have "int (length (take (nat n) ?summary)) \<le> n" using assms(3) by simp
  ultimately show ?thesis using g by simp
qed

theorem C6_tier0_bounded_and_nonempty_witness:
  "report_text \<noteq> []
   \<and> max_chars summarizer_default_config ''L0_max_chars'' 100 = Inr (JInt 100)
   \<and> (\<exists>s. generate_l0_summary summarizer_default_config report_text = Inr s \<and> s \<noteq> []
          \<and> int (length s) \<le> 100)"
proof -
  have 1: "report_text \<noteq> []" by (simp add: report_text_def)
  have 2: "(0::int) < 100" by simp
  show ?thesis
    using C6_tier0_bounded_and_nonempty [OF 1 default_max_chars(1) 2] 1 default_max_chars(1)
    by simp
qed

text \<open>
  C7. For the report input under the default configuration, the summary contains
  "Report", and the overview has a section labelled "Progress" and at least two key
  points: the summary is "Report...", three key points are extracted and numbered in
  the overview, and its one section line starts with "Progress:". This holds whatever
  the regular expression engine decides for the parameters of the model.
\<close>

theorem C7_report_scenario:
  "generate_l0_summary summarizer_default_config report_text = Inr (u ''Report...'')
   \<and> contains (u ''Report...'') (u ''Report'')
   \<and> extract_key_points env report_text 5 =
       [u ''## Progress'', u ''- done task A'', u ''- done task B'']
   \<and> extract_sections report_text = [u ''Progress: - done task A... - done task B... '']
   \<and> generate_l1_overview env summarizer_default_config report_text =
       Inr (py_join [10]
              [label_key_points, u ''  1. ## Progress'', u ''  2. - done task A'',
               u ''  3. - done task B'', label_sections,
               u ''  '' @ bullet @ u '' Progress: - done task A... - done task B... ''])"
proof -
  have "contains (u ''Report...'') (u ''Report'')" by (simp add: u_def)
  then show ?thesis
    using report_l0 report_key_points report_sections report_l1 by simp
qed

end
